theory Spec2Isabelle
  imports Complex_Main "HOL-Library.Log_Nat"
begin

section \<open>JavaScript values\<close>

text \<open>
  A number is a double: NaN, one of the two infinities, or a finite double, given by its
  exact value. The sign of zero is not represented: both zeros print as \<open>0\<close>.
\<close>

datatype jsnum = NaN | NegInf | Fin rat | PosInf

text \<open>
  Rounding an exact result to a double, to nearest with ties to even. A positive \<open>x\<close>
  with \<open>2^L \<le> x < 2^(L+1)\<close> is rounded to a multiple of \<open>2^e\<close>, where \<open>e\<close> is
  \<open>L - 52\<close> (53 significant bits) and at least \<open>-1074\<close> (the subnormal range). The
  result \<open>m * 2^e\<close> overflows to infinity when it reaches \<open>2^1024\<close>, that is, when the
  number of binary digits of \<open>m\<close> plus \<open>e\<close> exceeds 1024.
\<close>

definition round_half_even :: "rat \<Rightarrow> int" where
  "round_half_even z =
     (let f = \<lfloor>z\<rfloor>; d = z - of_int f
      in if d < 1 / 2 then f else if 1 / 2 < d then f + 1 else if even f then f else f + 1)"

definition ilog2 :: "rat \<Rightarrow> int" where
  "ilog2 x =
     (case quotient_of x of
        (p, q) \<Rightarrow> let a = bitlen p - bitlen q in if power_int 2 a \<le> x then a else a - 1)"

definition round_positive :: "rat \<Rightarrow> jsnum" where
  "round_positive x =
     (let e = max (ilog2 x - 52) (- 1074);
          m = round_half_even (x / power_int 2 e)
      in if 1024 < bitlen m + e then PosInf else Fin (of_int m * power_int 2 e))"

fun negate :: "jsnum \<Rightarrow> jsnum" where
  "negate NaN = NaN"
| "negate NegInf = PosInf"
| "negate (Fin x) = Fin (- x)"
| "negate PosInf = NegInf"

definition double :: "rat \<Rightarrow> jsnum" where
  "double x =
     (if x = 0 then Fin 0
      else if 0 < x then round_positive x
      else negate (round_positive (- x)))"

text \<open>
  The values a payload can hold: what \<open>response.json()\<close> produces, \<open>undefined\<close>
  (a missing property), and \<open>JNative n\<close>, the built-in function or object that a plain
  object inherits from \<open>Object.prototype\<close> under the name \<open>n\<close>. An object is the list
  of its own enumerable properties, the first binding of a key being the one that counts.
\<close>

datatype jsval =
    JUndefined
  | JNull
  | JBool bool
  | JNum jsnum
  | JStr string
  | JArr "jsval list"
  | JObj "(string \<times> jsval) list"
  | JNative string

text \<open>
  A template literal is kept as its pieces: the literal text and the substituted values,
  whose conversion to text is the engine's and is not spelled out.
\<close>

datatype piece = Lit string | Val jsval

type_synonym template = "piece list"

datatype error = Error template | TypeError | SyntaxError | ReferenceError

text \<open>ToBoolean.\<close>

fun truthy :: "jsval \<Rightarrow> bool" where
  "truthy JUndefined = False"
| "truthy JNull = False"
| "truthy (JBool b) = b"
| "truthy (JNum n) = (n \<noteq> NaN \<and> n \<noteq> Fin 0)"
| "truthy (JStr s) = (s \<noteq> [])"
| "truthy (JArr xs) = True"
| "truthy (JObj kvs) = True"
| "truthy (JNative n) = True"

text \<open>\<open>a || b\<close> on values.\<close>

definition js_or :: "jsval \<Rightarrow> jsval \<Rightarrow> jsval" where
  "js_or a b = (if truthy a then a else b)"

text \<open>
  \<open>v.k\<close> for the property names the code reads off payloads (\<open>data\<close>, \<open>month\<close>,
  \<open>amount\<close>, \<open>categories\<close>, \<open>grandTotal\<close>, \<open>category\<close>, \<open>total\<close>, \<open>title\<close>,
  \<open>description\<close>, \<open>suggestion\<close>, \<open>confidence\<close>, \<open>predictedAmount\<close>, \<open>dayOfMonth\<close>,
  \<open>currentSpent\<close>, \<open>dailyAverage\<close>, \<open>projectedMonthEnd\<close>, \<open>daysRemaining\<close>,
  \<open>threeMonthProjection\<close>, \<open>sixMonthProjection\<close>, \<open>savingsPotential\<close>). No built-in
  prototype defines any of them, so only an object's own property can answer; reading
  a property of \<open>null\<close> or \<open>undefined\<close> throws a TypeError.
\<close>

fun field :: "jsval \<Rightarrow> string \<Rightarrow> error + jsval" where
  "field JUndefined k = Inl TypeError"
| "field JNull k = Inl TypeError"
| "field (JObj kvs) k = (case map_of kvs k of Some v \<Rightarrow> Inr v | None \<Rightarrow> Inr JUndefined)"
| "field v k = Inr JUndefined"

text \<open>The property names every plain object inherits from \<open>Object.prototype\<close>.\<close>

definition Object_prototype :: "string list" where
  "Object_prototype =
     [''constructor'', ''__proto__'', ''hasOwnProperty'', ''isPrototypeOf'',
      ''propertyIsEnumerable'', ''toLocaleString'', ''toString'', ''valueOf'',
      ''__defineGetter__'', ''__defineSetter__'', ''__lookupGetter__'',
      ''__lookupSetter__'']"

text \<open>
  \<open>table[key]\<close> on an object literal with a computed string key: the own property, else
  what the prototype chain holds under that name, else \<open>undefined\<close>.
\<close>

definition index :: "(string \<times> jsval) list \<Rightarrow> string \<Rightarrow> jsval" where
  "index kvs k =
     (case map_of kvs k of
        Some v \<Rightarrow> v
      | None \<Rightarrow> if k \<in> set Object_prototype then JNative k else JUndefined)"

text \<open>
  \<open>Object.keys(v).length\<close>: the number of own enumerable string keys. \<open>Object.keys\<close>
  throws on \<open>null\<close> and \<open>undefined\<close>.
\<close>

fun Object_keys_length :: "jsval \<Rightarrow> error + nat" where
  "Object_keys_length JUndefined = Inl TypeError"
| "Object_keys_length JNull = Inl TypeError"
| "Object_keys_length (JBool b) = Inr 0"
| "Object_keys_length (JNum n) = Inr 0"
| "Object_keys_length (JStr s) = Inr (length s)"
| "Object_keys_length (JArr xs) = Inr (length xs)"
| "Object_keys_length (JObj kvs) = Inr (length (remdups (map fst kvs)))"
| "Object_keys_length (JNative n) = Inr 0"

section \<open>Analytics utils\<close>

text \<open>
  \<open>isValidData(data)\<close> is \<open>data && (Array.isArray(data) ? data.length > 0
  : Object.keys(data).length > 0)\<close>: a falsy \<open>data\<close> is returned as it is.
\<close>

definition isValidData :: "jsval \<Rightarrow> error + jsval" where
  "isValidData data =
     (if \<not> truthy data then Inr data
      else case data of
        JArr xs \<Rightarrow> Inr (JBool (0 < length xs))
      | _ \<Rightarrow> (case Object_keys_length data of
                 Inl e \<Rightarrow> Inl e
               | Inr n \<Rightarrow> Inr (JBool (0 < n))))"

text \<open>The outcome of a call read as a condition, as in \<open>if (!isValidData(x))\<close>.\<close>

definition returns_falsy :: "error + jsval \<Rightarrow> bool" where
  "returns_falsy r = (case r of Inl e \<Rightarrow> False | Inr v \<Rightarrow> \<not> truthy v)"

text \<open>
  A string is a list of characters. A character with a code below 128 is that ASCII
  character; any other stands for a code unit above ASCII. \<open>toUpperCase\<close> maps the ASCII
  letters \<open>a\<close> to \<open>z\<close> to \<open>A\<close> to \<open>Z\<close> and leaves the other ASCII characters; what it
  makes of a character above ASCII (one character or several, as for the sharp s) is the
  engine's, \<open>up\<close>.
\<close>

definition toUpperCase_ascii :: "char \<Rightarrow> char" where
  "toUpperCase_ascii c =
     (let n = (of_char c :: nat) in if 97 \<le> n \<and> n \<le> 122 then char_of (n - 32) else c)"

definition toUpperCase :: "(char \<Rightarrow> string) \<Rightarrow> string \<Rightarrow> string" where
  "toUpperCase up s =
     concat (map (\<lambda>c. if (of_char c :: nat) < 128 then [toUpperCase_ascii c] else up c) s)"

definition charAt :: "string \<Rightarrow> nat \<Rightarrow> string" where
  "charAt s i = take 1 (drop i s)"

definition slice :: "string \<Rightarrow> nat \<Rightarrow> string" where
  "slice s i = drop i s"

text \<open>
  \<open>capitalizeFirst(str)\<close> is \<open>str.charAt(0).toUpperCase() + str.slice(1)\<close>. Only a
  string has a \<open>charAt\<close> method: on \<open>null\<close> and \<open>undefined\<close> the property read throws,
  on any other value the call of a missing method does.
\<close>

fun capitalizeFirst :: "(char \<Rightarrow> string) \<Rightarrow> jsval \<Rightarrow> error + string" where
  "capitalizeFirst up (JStr str) = Inr (toUpperCase up (charAt str 0) @ slice str 1)"
| "capitalizeFirst up v = Inl TypeError"

text \<open>
  The two lookup tables. An icon is written by its code points.
\<close>

definition getCategoryColors :: "(string \<times> jsval) list" where
  "getCategoryColors =
     [(''food'', JStr ''#FF6B6B''),
      (''transport'', JStr ''#4ECDC4''),
      (''entertainment'', JStr ''#96CEB4''),
      (''utilities'', JStr ''#FECA57''),
      (''healthcare'', JStr ''#FF9FF3''),
      (''shopping'', JStr ''#45B7D1''),
      (''other'', JStr ''#A55EEA'')]"

definition getCategoryIcons :: "(string \<times> jsval) list" where
  "getCategoryIcons =
     [(''food'', JStr ''U+1F37D U+FE0F''),
      (''transport'', JStr ''U+1F697''),
      (''entertainment'', JStr ''U+1F3AC''),
      (''utilities'', JStr ''U+1F4A1''),
      (''healthcare'', JStr ''U+1F3E5''),
      (''shopping'', JStr ''U+1F6D2''),
      (''other'', JStr ''U+1F4CB'')]"

text \<open>
  The two lookups of \<open>renderCategoryChart\<close>: \<open>categoryColors[cat.category] || '#999'\<close>
  and \<open>categoryIcons[cat.category] || <clipboard icon>\<close>.
\<close>

definition categoryColor :: "string \<Rightarrow> jsval" where
  "categoryColor category = js_or (index getCategoryColors category) (JStr ''#999'')"

definition categoryIcon :: "string \<Rightarrow> jsval" where
  "categoryIcon category = js_or (index getCategoryIcons category) (JStr ''U+1F4CB'')"

definition known_categories :: "string list" where
  "known_categories =
     [''food'', ''transport'', ''entertainment'', ''utilities'', ''healthcare'',
      ''shopping'', ''other'']"

section \<open>The page, the credential store and the server\<close>

text \<open>
  What a region of the page holds. The markup is kept by its structure; the values shown
  are kept as they are read off the payload, the text that \<open>formatAnalyticsCurrency\<close>,
  \<open>formatPercentage\<close> and the template literals make of them is not spelled out.
\<close>

datatype chart =
    LineChart "jsval list" "jsval list"
  | PieChart "(jsval \<times> string) list" "jsval list" "jsval list" "jsval list"

datatype content =
    Empty
  | LoadingSpinner
  | ErrorState string
  | NoData string
  | TrendsCanvas "chart option"
  | CategoryCanvas jsval "chart option"
  | InsightsList "(jsval \<times> jsval \<times> jsval option) list"
  | PredictionsList "(string \<times> jsval \<times> jsval) list"
  | VelocityWidget jsval jsval jsval jsval jsnum jsval
  | ForecastWidget jsval jsval jsval

text \<open>
  A response of the server: \<open>body\<close> is \<open>None\<close> when the body is not JSON, so that
  \<open>response.json()\<close> rejects with a SyntaxError. \<open>response.ok\<close> is the status being in
  the range 200 to 299. A \<open>fetch\<close> either rejects or answers.
\<close>

record response =
  status :: nat
  statusText :: string
  body :: "jsval option"

definition ok :: "response \<Rightarrow> bool" where
  "ok r = (200 \<le> status r \<and> status r \<le> 299)"

datatype reply = Rejects error | Responds response

record request =
  url :: template
  headers :: "(string \<times> string) list"

text \<open>The module-level \<open>analyticsData\<close> of the API module.\<close>

record snapshot =
  trends :: jsval
  categoryBreakdown :: jsval
  insights :: jsval
  predictions :: jsval
  velocity :: jsval
  forecast :: jsval

text \<open>The fields of the \<open>AnalyticsDashboard\<close> instance (\<open>charts\<close> is never used).\<close>

record dashboard =
  isLoading :: bool
  currentPeriod :: jsval
  currentMonths :: jsval

text \<open>
  \<open>window.i18n\<close>, when the page has one: each of its three methods is absent or gives
  an outcome, the same each time it is called. \<open>formatCurrency\<close> is given the value, the
  currency and the locale.
\<close>

record i18n =
  getLocale :: "(error + jsval) option"
  getCurrency :: "(error + jsval) option"
  formatCurrency :: "(jsval \<Rightarrow> jsval \<Rightarrow> jsval \<Rightarrow> error + jsval) option"

text \<open>
  Everything the code reads or writes: \<open>localStorage\<close>'s \<open>authToken\<close>; the server, as
  the reply it gives to a request; whether \<open>new Chart(...)\<close> throws; the number the engine
  reads out of a string or out of the text of an array; its upper-casing of a character
  above ASCII; \<open>window.i18n\<close>; the requests sent so far; the snapshot; the regions of the
  page by id (\<open>None\<close>: no such element); the \<open>console.error\<close> log; the banners appended
  to the page; the dashboard instance.
\<close>

record world =
  authToken :: "string option"
  network :: "request \<Rightarrow> reply"
  chartjs :: "error option"
  coerce :: "jsval \<Rightarrow> jsnum"
  upperCase :: "char \<Rightarrow> string"
  i18n :: "i18n option"
  requests :: "request list"
  analyticsData :: snapshot
  dom :: "string \<Rightarrow> content option"
  console :: "(template \<times> error) list"
  banners :: "string list"
  analyticsDashboard :: dashboard

text \<open>
  A call either returns a value or throws, and leaves a new state behind. The
  continuation of an \<open>await\<close> is run in one piece.
\<close>

type_synonym 'a js = "world \<Rightarrow> (error + 'a) \<times> world"

definition js_bind :: "'a js \<Rightarrow> ('a \<Rightarrow> 'b js) \<Rightarrow> 'b js" where
  "js_bind m f w = (case m w of (Inl e, w1) \<Rightarrow> (Inl e, w1) | (Inr x, w1) \<Rightarrow> f x w1)"

definition try_catch :: "'a js \<Rightarrow> (error \<Rightarrow> 'a js) \<Rightarrow> 'a js" where
  "try_catch m handler w =
     (case m w of (Inl e, w1) \<Rightarrow> handler e w1 | (Inr x, w1) \<Rightarrow> (Inr x, w1))"

definition sbind :: "error + 'a \<Rightarrow> ('a \<Rightarrow> error + 'b) \<Rightarrow> error + 'b" where
  "sbind r f = (case r of Inl e \<Rightarrow> Inl e | Inr x \<Rightarrow> f x)"

text \<open>\<open>xs.map(f)\<close> with a callback that may throw: the first throw ends the call.\<close>

fun mapE :: "('a \<Rightarrow> error + 'b) \<Rightarrow> 'a list \<Rightarrow> error + 'b list" where
  "mapE f [] = Inr []"
| "mapE f (x # xs) =
     (case f x of
        Inl e \<Rightarrow> Inl e
      | Inr y \<Rightarrow> (case mapE f xs of Inl e \<Rightarrow> Inl e | Inr ys \<Rightarrow> Inr (y # ys)))"

text \<open>
  \<open>v.map(f)\<close> on a value that is not \<open>null\<close> or \<open>undefined\<close>: only an array has the
  method; a payload object can hold no function under \<open>map\<close>, so the call throws.
\<close>

fun array_map :: "jsval \<Rightarrow> (jsval \<Rightarrow> error + 'b) \<Rightarrow> error + 'b list" where
  "array_map (JArr xs) f = mapE f xs"
| "array_map v f = Inl TypeError"

definition console_error :: "template \<Rightarrow> error \<Rightarrow> world \<Rightarrow> world" where
  "console_error label e w = w\<lparr>console := console w @ [(label, e)]\<rparr>"

section \<open>Analytics API\<close>

definition ANALYTICS_API_URL :: string where
  "ANALYTICS_API_URL = ''/api/analytics''"

definition getAuthHeaders :: "world \<Rightarrow> (string \<times> string) list" where
  "getAuthHeaders w =
     [(''Content-Type'', ''application/json''),
      (''Authorization'',
        (case authToken w of
           None \<Rightarrow> []
         | Some token \<Rightarrow> if token \<noteq> [] then ''Bearer '' @ token else []))]"

text \<open>The error thrown when no token is stored (the spec's AuthError).\<close>

definition AuthError :: error where
  "AuthError = Error [Lit ''No authentication token found'']"

text \<open>The error thrown on a status outside the success range (the spec's TransportError).\<close>

definition TransportError :: "response \<Rightarrow> error" where
  "TransportError r =
     Error [Lit ''API request failed: '', Val (JNum (Fin (of_nat (status r)))), Lit '' '',
            Val (JStr (statusText r))]"

text \<open>The \<open>try\<close> block of \<open>apiFetch\<close>; \<open>!token\<close> holds for \<open>null\<close> and for the empty string.\<close>

definition apiFetch_body :: "template \<Rightarrow> jsval js" where
  "apiFetch_body endpoint w =
     (case authToken w of
        None \<Rightarrow> (Inl AuthError, w)
      | Some token \<Rightarrow>
          if token = [] then (Inl AuthError, w)
          else
            let req = \<lparr>url = Lit ANALYTICS_API_URL # endpoint, headers = getAuthHeaders w\<rparr>;
                w1 = w\<lparr>requests := requests w @ [req]\<rparr>
            in (case network w req of
                  Rejects e \<Rightarrow> (Inl e, w1)
                | Responds r \<Rightarrow>
                    if \<not> ok r then (Inl (TransportError r), w1)
                    else (case body r of
                            None \<Rightarrow> (Inl SyntaxError, w1)
                          | Some data \<Rightarrow> (field data ''data'', w1))))"

definition apiFetch :: "template \<Rightarrow> jsval js" where
  "apiFetch endpoint =
     try_catch (apiFetch_body endpoint)
       (\<lambda>error w.
          (Inl error, console_error ([Lit ''Error fetching ''] @ endpoint @ [Lit '':'']) error w))"

text \<open>A default parameter value stands in for \<open>undefined\<close> only.\<close>

definition default_arg :: "jsval \<Rightarrow> jsval \<Rightarrow> jsval" where
  "default_arg v d = (if v = JUndefined then d else v)"

definition fetchSpendingTrends :: "jsval \<Rightarrow> jsval \<Rightarrow> jsval js" where
  "fetchSpendingTrends period months =
     js_bind
       (apiFetch [Lit ''/spending-trends?period='', Val (default_arg period (JStr ''monthly'')),
                  Lit ''&months='', Val (default_arg months (JNum (Fin 6)))])
       (\<lambda>data w. (Inr data, w\<lparr>analyticsData := (analyticsData w)\<lparr>trends := data\<rparr>\<rparr>))"

definition fetchCategoryBreakdown :: "jsval \<Rightarrow> jsval \<Rightarrow> jsval \<Rightarrow> jsval js" where
  "fetchCategoryBreakdown type startDate endDate =
     (let startDate = default_arg startDate JNull;
          endDate = default_arg endDate JNull;
          url = [Lit ''/category-breakdown?type='', Val (default_arg type (JStr ''expense''))]
                @ (if truthy startDate then [Lit ''&startDate='', Val startDate] else [])
                @ (if truthy endDate then [Lit ''&endDate='', Val endDate] else [])
      in js_bind (apiFetch url)
           (\<lambda>data w.
              (Inr data, w\<lparr>analyticsData := (analyticsData w)\<lparr>categoryBreakdown := data\<rparr>\<rparr>)))"

definition fetchInsights :: "jsval js" where
  "fetchInsights =
     js_bind (apiFetch [Lit ''/insights''])
       (\<lambda>data w. (Inr data, w\<lparr>analyticsData := (analyticsData w)\<lparr>insights := data\<rparr>\<rparr>))"

definition fetchPredictions :: "jsval js" where
  "fetchPredictions =
     js_bind (apiFetch [Lit ''/predictions''])
       (\<lambda>data w. (Inr data, w\<lparr>analyticsData := (analyticsData w)\<lparr>predictions := data\<rparr>\<rparr>))"

definition fetchSpendingVelocity :: "jsval js" where
  "fetchSpendingVelocity =
     js_bind (apiFetch [Lit ''/velocity''])
       (\<lambda>data w. (Inr data, w\<lparr>analyticsData := (analyticsData w)\<lparr>velocity := data\<rparr>\<rparr>))"

definition fetchForecast :: "jsval js" where
  "fetchForecast =
     js_bind (apiFetch [Lit ''/forecast''])
       (\<lambda>data w. (Inr data, w\<lparr>analyticsData := (analyticsData w)\<lparr>forecast := data\<rparr>\<rparr>))"

definition clearAnalyticsData :: "world \<Rightarrow> world" where
  "clearAnalyticsData w =
     w\<lparr>analyticsData :=
         \<lparr>trends = JNull, categoryBreakdown = JNull, insights = JNull, predictions = JNull,
          velocity = JNull, forecast = JNull\<rparr>\<rparr>"

section \<open>Analytics renderers\<close>

text \<open>
  \<open>getElementById\<close>, the \<open>if (!container) return\<close> of every renderer, and the rest of
  the renderer acting on the element it found: the rest is given what the element holds
  and returns what it holds afterwards, together with whether it threw.
\<close>

definition with_container :: "string \<Rightarrow> (content \<Rightarrow> (error + unit) \<times> content) \<Rightarrow> unit js" where
  "with_container containerId rest w =
     (case dom w containerId of
        None \<Rightarrow> (Inr (), w)
      | Some container \<Rightarrow>
          (case rest container of
             (r, container') \<Rightarrow> (r, w\<lparr>dom := (dom w)(containerId \<mapsto> container')\<rparr>)))"

text \<open>\<open>v?.k\<close>: \<open>undefined\<close> when \<open>v\<close> is \<open>null\<close> or \<open>undefined\<close>.\<close>

definition optional_field :: "jsval \<Rightarrow> string \<Rightarrow> error + jsval" where
  "optional_field v k = (if v = JUndefined \<or> v = JNull then Inr JUndefined else field v k)"

text \<open>
  Turning an array or an object into a primitive throws a TypeError when its \<open>toString\<close>
  is not callable and its \<open>valueOf\<close> gives no primitive. A payload object has the
  inherited \<open>valueOf\<close>, which returns the object, or an own entry, which is not callable;
  so the conversion throws exactly when the object has an entry named \<open>toString\<close>. An
  array is printed by joining the texts of its elements (nothing for \<open>null\<close> and
  \<open>undefined\<close>), and throws when one of them does.
\<close>

fun unprintable :: "jsval \<Rightarrow> bool" where
  "unprintable (JArr xs) = (\<exists>x \<in> set xs. unprintable x)"
| "unprintable (JObj kvs) = (''toString'' \<in> fst ` set kvs)"
| "unprintable v = False"

text \<open>\<open>${v}\<close> in a template: what matters here is whether the conversion to text throws.\<close>

definition interpolate :: "jsval \<Rightarrow> error + unit" where
  "interpolate v = (if unprintable v then Inl TypeError else Inr ())"

text \<open>
  ToNumber. The number read out of a string, or out of the text of an array, is the
  engine's (\<open>c\<close>); the text of an object or of a built-in is no numeral.
\<close>

fun toNumber :: "(jsval \<Rightarrow> jsnum) \<Rightarrow> jsval \<Rightarrow> error + jsnum" where
  "toNumber c JUndefined = Inr NaN"
| "toNumber c JNull = Inr (Fin 0)"
| "toNumber c (JBool b) = Inr (Fin (if b then 1 else 0))"
| "toNumber c (JNum n) = Inr n"
| "toNumber c (JStr s) = Inr (c (JStr s))"
| "toNumber c (JArr xs) = (if unprintable (JArr xs) then Inl TypeError else Inr (c (JArr xs)))"
| "toNumber c (JObj kvs) = (if unprintable (JObj kvs) then Inl TypeError else Inr NaN)"
| "toNumber c (JNative n) = Inr NaN"

text \<open>
  Division and multiplication by a positive constant, rounded to a double, and
  \<open>Math.min\<close> with a constant.
\<close>

fun divide_by :: "jsnum \<Rightarrow> rat \<Rightarrow> jsnum" where
  "divide_by (Fin x) k = double (x / k)"
| "divide_by n k = n"

fun multiply_by :: "jsnum \<Rightarrow> rat \<Rightarrow> jsnum" where
  "multiply_by (Fin x) k = double (x * k)"
| "multiply_by n k = n"

fun Math_min :: "rat \<Rightarrow> jsnum \<Rightarrow> jsnum" where
  "Math_min k (Fin x) = Fin (min k x)"
| "Math_min k NaN = NaN"
| "Math_min k NegInf = NegInf"
| "Math_min k PosInf = Fin k"

text \<open>\<open>Math.min(100, (velocity.dayOfMonth / 30) * 100)\<close>.\<close>

definition progressPercent :: "(jsval \<Rightarrow> jsnum) \<Rightarrow> jsval \<Rightarrow> error + jsnum" where
  "progressPercent c dayOfMonth =
     sbind (toNumber c dayOfMonth)
       (\<lambda>n. Inr (Math_min 100 (multiply_by (divide_by n 30) 100)))"

text \<open>
  \<open>(window.i18n?.getLocale?.() && window.i18n.getLocale()) || 'en-US'\<close>, and the same
  for the currency with \<open>'INR'\<close>.
\<close>

definition getAnalyticsLocale :: "world \<Rightarrow> error + jsval" where
  "getAnalyticsLocale w =
     (case i18n w of
        None \<Rightarrow> Inr (JStr ''en-US'')
      | Some h \<Rightarrow>
          (case getLocale h of
             None \<Rightarrow> Inr (JStr ''en-US'')
           | Some r \<Rightarrow> sbind r (\<lambda>v. Inr (js_or v (JStr ''en-US'')))))"

definition getAnalyticsCurrency :: "world \<Rightarrow> error + jsval" where
  "getAnalyticsCurrency w =
     (case i18n w of
        None \<Rightarrow> Inr (JStr ''INR'')
      | Some h \<Rightarrow>
          (case getCurrency h of
             None \<Rightarrow> Inr (JStr ''INR'')
           | Some r \<Rightarrow> sbind r (\<lambda>v. Inr (js_or v (JStr ''INR'')))))"

text \<open>
  \<open>${AnalyticsUtils.formatAnalyticsCurrency(value)}\<close>: the call with no options and the
  interpolation of what it returns. The text is not spelled out; what is kept is whether
  anything throws: the currency and locale lookups, \<open>window.i18n.formatCurrency\<close> when
  the page has it, \<open>Number(value || 0)\<close> otherwise, and the conversions to text.
\<close>

definition formatAnalyticsCurrency :: "world \<Rightarrow> jsval \<Rightarrow> error + unit" where
  "formatAnalyticsCurrency w v =
     sbind (getAnalyticsCurrency w)
       (\<lambda>currency.
          case (case i18n w of None \<Rightarrow> None | Some h \<Rightarrow> formatCurrency h) of
            Some format \<Rightarrow>
              sbind (getAnalyticsLocale w)
                (\<lambda>locale. sbind (format v currency locale) interpolate)
          | None \<Rightarrow>
              sbind (toNumber (coerce w) (js_or v (JNum (Fin 0))))
                (\<lambda>amount. interpolate currency))"

text \<open>\<open>${AnalyticsUtils.formatPercentage(value)}\<close>: \<open>Number(value || 0).toFixed(1)\<close>.\<close>

definition formatPercentage :: "world \<Rightarrow> jsval \<Rightarrow> error + unit" where
  "formatPercentage w v =
     sbind (toNumber (coerce w) (js_or v (JNum (Fin 0)))) (\<lambda>amount. Inr ())"

definition renderTrendsChart :: "jsval \<Rightarrow> unit js" where
  "renderTrendsChart payload w =
     with_container ''trends-chart''
       (\<lambda>container.
          case isValidData payload of
            Inl e \<Rightarrow> (Inl e, container)
          | Inr valid \<Rightarrow>
              if \<not> truthy valid then (Inr (), NoData ''No trend data available'')
              else
                (case sbind (array_map payload (\<lambda>trend. field trend ''month''))
                        (\<lambda>labels. sbind (array_map payload (\<lambda>trend. field trend ''amount''))
                          (\<lambda>amounts. case chartjs w of
                                        Some e \<Rightarrow> Inl e
                                      | None \<Rightarrow> Inr (LineChart labels amounts))) of
                   Inl e \<Rightarrow> (Inl e, TrendsCanvas None)
                 | Inr chart \<Rightarrow> (Inr (), TrendsCanvas (Some chart))))
       w"

definition renderVelocityWidget :: "jsval \<Rightarrow> unit js" where
  "renderVelocityWidget payload w =
     with_container ''velocity-widget''
       (\<lambda>container.
          case sbind (field payload ''dayOfMonth'')
                 (\<lambda>dayOfMonth. sbind (progressPercent (coerce w) dayOfMonth)
                 (\<lambda>percent. sbind (interpolate dayOfMonth)
                 (\<lambda>u. sbind (field payload ''currentSpent'')
                 (\<lambda>currentSpent. sbind (formatAnalyticsCurrency w currentSpent)
                 (\<lambda>u. sbind (field payload ''dailyAverage'')
                 (\<lambda>dailyAverage. sbind (formatAnalyticsCurrency w dailyAverage)
                 (\<lambda>u. sbind (field payload ''projectedMonthEnd'')
                 (\<lambda>projectedMonthEnd. sbind (formatAnalyticsCurrency w projectedMonthEnd)
                 (\<lambda>u. sbind (field payload ''daysRemaining'')
                 (\<lambda>daysRemaining. sbind (interpolate daysRemaining)
                 (\<lambda>u. Inr (VelocityWidget dayOfMonth currentSpent dailyAverage
                             projectedMonthEnd percent daysRemaining)))))))))))) of
            Inl e \<Rightarrow> (Inl e, container)
          | Inr html \<Rightarrow> (Inr (), html))
       w"


text \<open>
  One slice of the pie: its label (icon and capitalised name), its value and its colour.
  The three \<open>map\<close> calls over \<open>breakdown.categories\<close> are taken in one pass: the
  callbacks have no effect, and an entry on which the second or third would throw has
  made the first throw. For a category that is not a string \<open>capitalizeFirst\<close> throws.
  The icon is a string or an inherited built-in, whose conversion to text never throws.
\<close>

definition category_slice ::
    "(char \<Rightarrow> string) \<Rightarrow> jsval \<Rightarrow> error + ((jsval \<times> string) \<times> jsval \<times> jsval)" where
  "category_slice up cat =
     sbind (field cat ''category'')
       (\<lambda>category. case category of
           JStr s \<Rightarrow>
             sbind (capitalizeFirst up category)
               (\<lambda>name. sbind (field cat ''total'')
                 (\<lambda>total. Inr ((categoryIcon s, name), total, categoryColor s)))
         | _ \<Rightarrow> Inl TypeError)"

definition renderCategoryChart :: "jsval \<Rightarrow> unit js" where
  "renderCategoryChart breakdown w =
     with_container ''category-chart''
       (\<lambda>container.
          case sbind (optional_field breakdown ''categories'') isValidData of
            Inl e \<Rightarrow> (Inl e, container)
          | Inr valid \<Rightarrow>
              if \<not> truthy valid then (Inr (), NoData ''No expense data available'')
              else
                (case sbind (field breakdown ''grandTotal'')
                        (\<lambda>grandTotal. sbind (formatAnalyticsCurrency w grandTotal)
                          (\<lambda>u. Inr grandTotal)) of
                   Inl e \<Rightarrow> (Inl e, Empty)
                 | Inr grandTotal \<Rightarrow>
                     (case sbind (field breakdown ''categories'')
                             (\<lambda>categories.
                                sbind (array_map categories (category_slice (upperCase w)))
                               (\<lambda>slices. case chartjs w of
                                   Some e \<Rightarrow> Inl e
                                 | None \<Rightarrow>
                                     Inr (PieChart (map fst slices) (map (fst \<circ> snd) slices)
                                            (map (snd \<circ> snd) slices) (map (snd \<circ> snd) slices)))) of
                        Inl e \<Rightarrow> (Inl e, CategoryCanvas grandTotal None)
                      | Inr chart \<Rightarrow> (Inr (), CategoryCanvas grandTotal (Some chart)))))
       w"

definition insight_item :: "jsval \<Rightarrow> error + (jsval \<times> jsval \<times> jsval option)" where
  "insight_item insight =
     sbind (field insight ''title'')
       (\<lambda>title. sbind (interpolate title)
       (\<lambda>u. sbind (field insight ''description'')
       (\<lambda>description. sbind (interpolate description)
       (\<lambda>u. sbind (field insight ''suggestion'')
       (\<lambda>suggestion.
          if truthy suggestion
          then sbind (interpolate suggestion) (\<lambda>u. Inr (title, description, Some suggestion))
          else Inr (title, description, None))))))"

definition renderInsightsWidget :: "jsval \<Rightarrow> unit js" where
  "renderInsightsWidget payload w =
     with_container ''insights-widget''
       (\<lambda>container.
          case isValidData payload of
            Inl e \<Rightarrow> (Inl e, container)
          | Inr valid \<Rightarrow>
              if \<not> truthy valid then (Inr (), NoData ''No insights available'')
              else
                (case array_map payload insight_item of
                   Inl e \<Rightarrow> (Inl e, container)
                 | Inr items \<Rightarrow> (Inr (), InsightsList items)))
       w"

definition prediction_item :: "world \<Rightarrow> jsval \<Rightarrow> error + (string \<times> jsval \<times> jsval)" where
  "prediction_item w prediction =
     sbind (field prediction ''category'')
       (\<lambda>category. sbind (capitalizeFirst (upperCase w) category)
       (\<lambda>name. sbind (field prediction ''confidence'')
       (\<lambda>confidence. sbind (formatPercentage w confidence)
       (\<lambda>u. sbind (field prediction ''predictedAmount'')
       (\<lambda>predictedAmount. sbind (formatAnalyticsCurrency w predictedAmount)
       (\<lambda>u. Inr (name, confidence, predictedAmount)))))))"

definition renderPredictionsWidget :: "jsval \<Rightarrow> unit js" where
  "renderPredictionsWidget payload w =
     with_container ''predictions-widget''
       (\<lambda>container.
          case isValidData payload of
            Inl e \<Rightarrow> (Inl e, container)
          | Inr valid \<Rightarrow>
              if \<not> truthy valid then (Inr (), NoData ''No predictions available'')
              else
                (case array_map payload (prediction_item w) of
                   Inl e \<Rightarrow> (Inl e, container)
                 | Inr items \<Rightarrow> (Inr (), PredictionsList items)))
       w"

definition renderForecastWidget :: "jsval \<Rightarrow> unit js" where
  "renderForecastWidget payload w =
     with_container ''forecast-widget''
       (\<lambda>container.
          case isValidData payload of
            Inl e \<Rightarrow> (Inl e, container)
          | Inr valid \<Rightarrow>
              if \<not> truthy valid then (Inr (), NoData ''No forecast data available'')
              else
                (case sbind (field payload ''threeMonthProjection'')
                        (\<lambda>threeMonthProjection.
                           sbind (formatAnalyticsCurrency w threeMonthProjection)
                        (\<lambda>u. sbind (field payload ''sixMonthProjection'')
                        (\<lambda>sixMonthProjection.
                           sbind (formatAnalyticsCurrency w sixMonthProjection)
                        (\<lambda>u. sbind (field payload ''savingsPotential'')
                        (\<lambda>savingsPotential.
                           sbind (formatAnalyticsCurrency w savingsPotential)
                        (\<lambda>u. Inr (ForecastWidget threeMonthProjection sixMonthProjection
                                    savingsPotential))))))) of
                   Inl e \<Rightarrow> (Inl e, container)
                 | Inr html \<Rightarrow> (Inr (), html)))
       w"

section \<open>Analytics dashboard\<close>

definition AnalyticsDashboard :: dashboard where
  "AnalyticsDashboard =
     \<lparr>isLoading = False, currentPeriod = JStr ''monthly'', currentMonths = JNum (Fin 6)\<rparr>"

definition showChartError :: "string \<Rightarrow> string \<Rightarrow> world \<Rightarrow> world" where
  "showChartError containerId message w =
     (case dom w containerId of
        None \<Rightarrow> w
      | Some container \<Rightarrow> w\<lparr>dom := (dom w)(containerId \<mapsto> ErrorState message)\<rparr>)"

definition showWidgetError :: "string \<Rightarrow> string \<Rightarrow> world \<Rightarrow> world" where
  "showWidgetError containerId message w =
     (case dom w containerId of
        None \<Rightarrow> w
      | Some container \<Rightarrow> w\<lparr>dom := (dom w)(containerId \<mapsto> ErrorState message)\<rparr>)"

definition containers :: "string list" where
  "containers =
     [''trends-chart'', ''category-chart'', ''insights-widget'', ''predictions-widget'',
      ''velocity-widget'', ''forecast-widget'']"

definition showLoadingState :: "world \<Rightarrow> world" where
  "showLoadingState w =
     fold (\<lambda>containerId w.
             case dom w containerId of
               None \<Rightarrow> w
             | Some container \<Rightarrow> w\<lparr>dom := (dom w)(containerId \<mapsto> LoadingSpinner)\<rparr>)
       containers w"

definition hideLoadingState :: "world \<Rightarrow> world" where
  "hideLoadingState w = w"

text \<open>The banner is appended to the page; its removal by a timer is not followed.\<close>

definition showErrorState :: "string \<Rightarrow> world \<Rightarrow> world" where
  "showErrorState message w = w\<lparr>banners := banners w @ [message]\<rparr>"

definition loadTrendsData :: "unit js" where
  "loadTrendsData w =
     try_catch
       (js_bind
          (fetchSpendingTrends (currentPeriod (analyticsDashboard w))
             (currentMonths (analyticsDashboard w)))
          renderTrendsChart)
       (\<lambda>error w.
          (Inr (), showChartError ''trends-chart'' ''Failed to load spending trends''
                     (console_error [Lit ''Error loading trends:''] error w)))
       w"

definition loadCategoryData :: "unit js" where
  "loadCategoryData =
     try_catch
       (js_bind (fetchCategoryBreakdown JUndefined JUndefined JUndefined) renderCategoryChart)
       (\<lambda>error w.
          (Inr (), showChartError ''category-chart'' ''Failed to load category breakdown''
                     (console_error [Lit ''Error loading categories:''] error w)))"

definition loadInsightsData :: "unit js" where
  "loadInsightsData =
     try_catch
       (js_bind fetchInsights renderInsightsWidget)
       (\<lambda>error w.
          (Inr (), showWidgetError ''insights-widget'' ''Failed to load insights''
                     (console_error [Lit ''Error loading insights:''] error w)))"

definition loadPredictionsData :: "unit js" where
  "loadPredictionsData =
     try_catch
       (js_bind fetchPredictions renderPredictionsWidget)
       (\<lambda>error w.
          (Inr (), showWidgetError ''predictions-widget'' ''Failed to load predictions''
                     (console_error [Lit ''Error loading predictions:''] error w)))"

definition loadVelocityData :: "unit js" where
  "loadVelocityData =
     try_catch
       (js_bind fetchSpendingVelocity renderVelocityWidget)
       (\<lambda>error w.
          (Inr (), showWidgetError ''velocity-widget'' ''Failed to load velocity data''
                     (console_error [Lit ''Error loading velocity:''] error w)))"

definition loadForecastData :: "unit js" where
  "loadForecastData =
     try_catch
       (js_bind fetchForecast renderForecastWidget)
       (\<lambda>error w.
          (Inr (), showWidgetError ''forecast-widget'' ''Failed to load forecast data''
                     (console_error [Lit ''Error loading forecast:''] error w)))"

text \<open>
  The six fetch and render tasks of a full refresh, in the order \<open>loadAllAnalytics\<close>
  starts them; the fetch, the region and the error message of each.
\<close>

datatype view = Trends | CategoryBreakdown | Insights | Predictions | Velocity | Forecast

definition all_views :: "view list" where
  "all_views = [Trends, CategoryBreakdown, Insights, Predictions, Velocity, Forecast]"

fun load :: "view \<Rightarrow> unit js" where
  "load Trends = loadTrendsData"
| "load CategoryBreakdown = loadCategoryData"
| "load Insights = loadInsightsData"
| "load Predictions = loadPredictionsData"
| "load Velocity = loadVelocityData"
| "load Forecast = loadForecastData"

fun fetch :: "view \<Rightarrow> jsval js" where
  "fetch Trends w =
     fetchSpendingTrends (currentPeriod (analyticsDashboard w))
       (currentMonths (analyticsDashboard w)) w"
| "fetch CategoryBreakdown w = fetchCategoryBreakdown JUndefined JUndefined JUndefined w"
| "fetch Insights w = fetchInsights w"
| "fetch Predictions w = fetchPredictions w"
| "fetch Velocity w = fetchSpendingVelocity w"
| "fetch Forecast w = fetchForecast w"

fun region :: "view \<Rightarrow> string" where
  "region Trends = ''trends-chart''"
| "region CategoryBreakdown = ''category-chart''"
| "region Insights = ''insights-widget''"
| "region Predictions = ''predictions-widget''"
| "region Velocity = ''velocity-widget''"
| "region Forecast = ''forecast-widget''"

fun failure_message :: "view \<Rightarrow> string" where
  "failure_message Trends = ''Failed to load spending trends''"
| "failure_message CategoryBreakdown = ''Failed to load category breakdown''"
| "failure_message Insights = ''Failed to load insights''"
| "failure_message Predictions = ''Failed to load predictions''"
| "failure_message Velocity = ''Failed to load velocity data''"
| "failure_message Forecast = ''Failed to load forecast data''"

text \<open>
  The six tasks are all started and all awaited; they finish in an order the code does
  not choose. \<open>completion_order order\<close> is that order: the tasks \<open>order\<close> names, then
  the others as they were started. \<open>settle\<close> runs each task's continuation when its turn
  comes and collects the outcomes, as \<open>Promise.allSettled\<close> does, which never rejects.
\<close>

definition completion_order :: "view list \<Rightarrow> view list" where
  "completion_order order = remdups order @ filter (\<lambda>v. v \<notin> set order) all_views"

fun settle :: "view list \<Rightarrow> world \<Rightarrow> (error + unit) list \<times> world" where
  "settle [] w = ([], w)"
| "settle (v # vs) w =
     (case load v w of
        (r, w1) \<Rightarrow> (case settle vs w1 of (rs, w2) \<Rightarrow> (r # rs, w2)))"

definition allSettled :: "view list \<Rightarrow> (error + unit) list js" where
  "allSettled order w = (case settle (completion_order order) w of (rs, w1) \<Rightarrow> (Inr rs, w1))"

definition set_isLoading :: "bool \<Rightarrow> world \<Rightarrow> world" where
  "set_isLoading b w = w\<lparr>analyticsDashboard := (analyticsDashboard w)\<lparr>isLoading := b\<rparr>\<rparr>"

definition loadAllAnalytics :: "view list \<Rightarrow> unit js" where
  "loadAllAnalytics order w =
     (if isLoading (analyticsDashboard w) then (Inr (), w)
      else
        (case try_catch
                (js_bind (allSettled order) (\<lambda>results w. (Inr (), w)))
                (\<lambda>error w.
                   (Inr (), showErrorState ''Failed to load analytics data''
                              (console_error [Lit ''Error loading analytics:''] error w)))
                (showLoadingState (set_isLoading True w)) of
           (r, w1) \<Rightarrow> (r, hideLoadingState (set_isLoading False w1))))"

section \<open>A page to run the code on\<close>

text \<open>
  A signed-in user, a page with the six regions and no \<open>window.i18n\<close>, and a server
  that answers the velocity request with the payload of the specification's scenario
  (33.3 being the double nearest to it), the insights request with status 500 and every
  other request with an empty list. Its text is ASCII, so that the engine's upper-casing
  above ASCII and its reading of numbers out of strings are never consulted.
\<close>

definition demo_velocity :: jsval where
  "demo_velocity =
     JObj [(''dayOfMonth'', JNum (Fin 15)), (''currentSpent'', JNum (Fin 500)),
           (''dailyAverage'', JNum (double (333 / 10))), (''projectedMonthEnd'', JNum (Fin 1000)),
           (''daysRemaining'', JNum (Fin 15))]"

definition demo_server :: "request \<Rightarrow> reply" where
  "demo_server req =
     (if url req = [Lit ANALYTICS_API_URL, Lit ''/velocity'']
      then Responds \<lparr>status = 200, statusText = ''OK'',
                     body = Some (JObj [(''data'', demo_velocity)])\<rparr>
      else if url req = [Lit ANALYTICS_API_URL, Lit ''/insights'']
      then Responds \<lparr>status = 500, statusText = ''Internal Server Error'', body = None\<rparr>
      else Responds \<lparr>status = 200, statusText = ''OK'',
                     body = Some (JObj [(''data'', JArr [])])\<rparr>)"

definition demo_page :: "string \<Rightarrow> content option" where
  "demo_page = map_of (map (\<lambda>containerId. (containerId, Empty)) containers)"

definition demo :: world where
  "demo =
     \<lparr>authToken = Some ''token'', network = demo_server, chartjs = None,
      coerce = (\<lambda>v. NaN), upperCase = (\<lambda>c. [c]), i18n = None, requests = [],
      analyticsData =
        \<lparr>trends = JNull, categoryBreakdown = JNull, insights = JNull, predictions = JNull,
         velocity = JNull, forecast = JNull\<rparr>,
      dom = demo_page, console = [], banners = [], analyticsDashboard = AnalyticsDashboard\<rparr>"

section \<open>Notions used in the proofs\<close>

text \<open>
  Two states have the same environment when the token, the server, the chart library,
  the engine's conversions, \<open>window.i18n\<close> and the dashboard's period and month window
  agree.
\<close>

definition same_env :: "world \<Rightarrow> world \<Rightarrow> bool" where
  "same_env w w' =
     (authToken w' = authToken w \<and> network w' = network w \<and> chartjs w' = chartjs w
      \<and> coerce w' = coerce w \<and> upperCase w' = upperCase w \<and> i18n w' = i18n w
      \<and> currentPeriod (analyticsDashboard w') = currentPeriod (analyticsDashboard w)
      \<and> currentMonths (analyticsDashboard w') = currentMonths (analyticsDashboard w))"

text \<open>
  A call is confined to region \<open>i\<close> when it keeps the environment and the dashboard
  instance, writes to no other region, and its outcome and what it leaves in region \<open>i\<close>
  depend on the state only through the environment and what region \<open>i\<close> held.
\<close>

definition confined :: "string \<Rightarrow> 'a js \<Rightarrow> bool" where
  "confined i m =
     ((\<forall>w. same_env w (snd (m w))
          \<and> analyticsDashboard (snd (m w)) = analyticsDashboard w
          \<and> (\<forall>r. r \<noteq> i \<longrightarrow> dom (snd (m w)) r = dom w r))
      \<and> (\<forall>w w'. same_env w w' \<and> dom w' i = dom w i \<longrightarrow>
            fst (m w') = fst (m w) \<and> dom (snd (m w')) i = dom (snd (m w)) i))"

section \<open>Properties of the utils\<close>

lemma isValidData_returns: "\<exists>v. isValidData data = Inr v"
  by (cases data) (simp_all add: isValidData_def)

text \<open>
  C7, as the code has it. \<open>isValidData\<close> gives \<open>false\<close> for the empty array and the
  empty object, and \<open>true\<close> for every one-element array and every object with at least
  one key. For \<open>null\<close> and for \<open>undefined\<close> it does not give \<open>false\<close>: the \<open>&&\<close> hands
  back its left operand, so the result is \<open>null\<close>, respectively \<open>undefined\<close>, a falsy
  value.
\<close>

theorem isValidData_presentable:
  "isValidData JNull = Inr JNull \<and> returns_falsy (isValidData JNull)
   \<and> isValidData JUndefined = Inr JUndefined \<and> returns_falsy (isValidData JUndefined)
   \<and> isValidData (JArr []) = Inr (JBool False)
   \<and> isValidData (JObj []) = Inr (JBool False)
   \<and> (\<forall>x. isValidData (JArr [x]) = Inr (JBool True))
   \<and> (\<forall>k v kvs. isValidData (JObj ((k, v) # kvs)) = Inr (JBool True))"
  by (auto simp add: isValidData_def returns_falsy_def)

text \<open>
  The stronger reading, that \<open>isValidData\<close> returns \<open>false\<close> for \<open>null\<close> and for
  \<open>undefined\<close>, fails: what it returns for them is not the boolean \<open>false\<close>.
\<close>

theorem isValidData_null_is_not_false:
  "isValidData JNull \<noteq> Inr (JBool False) \<and> isValidData JUndefined \<noteq> Inr (JBool False)"
  by (simp add: isValidData_def)

text \<open>The upper-casing of the ASCII letters, letter by letter.\<close>

lemma toUpperCase_ascii_letters:
  "list_all (\<lambda>(l, u). toUpperCase_ascii l = u)
     (zip ''abcdefghijklmnopqrstuvwxyz'' ''ABCDEFGHIJKLMNOPQRSTUVWXYZ'')"
  by code_simp

lemma ascii_letters:
  "(97 \<le> (of_char c :: nat) \<and> (of_char c :: nat) \<le> 122) = (c \<in> set ''abcdefghijklmnopqrstuvwxyz'')"
proof
  assume range: "97 \<le> (of_char c :: nat) \<and> (of_char c :: nat) \<le> 122"
  have "list_all (\<lambda>n. char_of n \<in> set ''abcdefghijklmnopqrstuvwxyz'') [97 ..< 123 :: nat]"
    by code_simp
  then have "\<forall>n \<in> set [97 ..< 123 :: nat]. char_of n \<in> set ''abcdefghijklmnopqrstuvwxyz''"
    unfolding list_all_iff .
  moreover have "(of_char c :: nat) \<in> set [97 ..< 123]"
    unfolding set_upt atLeastLessThan_iff using range by linarith
  ultimately have "char_of (of_char c :: nat) \<in> set ''abcdefghijklmnopqrstuvwxyz''"
    by (rule bspec)
  then show "c \<in> set ''abcdefghijklmnopqrstuvwxyz''"
    by simp
next
  assume letter: "c \<in> set ''abcdefghijklmnopqrstuvwxyz''"
  have "list_all (\<lambda>l. 97 \<le> (of_char l :: nat) \<and> (of_char l :: nat) \<le> 122)
          ''abcdefghijklmnopqrstuvwxyz''"
    by code_simp
  then have "\<forall>l \<in> set ''abcdefghijklmnopqrstuvwxyz''.
      97 \<le> (of_char l :: nat) \<and> (of_char l :: nat) \<le> 122"
    unfolding list_all_iff .
  then show "97 \<le> (of_char c :: nat) \<and> (of_char c :: nat) \<le> 122"
    using letter by (rule bspec)
qed

text \<open>
  C10. \<open>capitalizeFirst\<close> returns a string for every string, and throws a TypeError for
  \<open>null\<close> and for \<open>undefined\<close>. The empty string gives the empty string. A string that
  starts with one of the ASCII letters \<open>a\<close> to \<open>z\<close> gets that letter replaced by the
  capital at the same place of the alphabet; one that starts with any other ASCII
  character is returned as it is; one that starts with a character above ASCII gets that
  character replaced by the engine's upper-casing of it. The rest of the string is kept.
\<close>

theorem capitalizeFirst_total_on_strings:
  "(\<forall>s. \<exists>r. capitalizeFirst up (JStr s) = Inr r)
   \<and> capitalizeFirst up (JStr []) = Inr []
   \<and> (\<forall>l u cs. (l, u) \<in> set (zip ''abcdefghijklmnopqrstuvwxyz'' ''ABCDEFGHIJKLMNOPQRSTUVWXYZ'')
        \<longrightarrow> capitalizeFirst up (JStr (l # cs)) = Inr (u # cs))
   \<and> (\<forall>c cs. (of_char c :: nat) < 128 \<and> c \<notin> set ''abcdefghijklmnopqrstuvwxyz''
        \<longrightarrow> capitalizeFirst up (JStr (c # cs)) = Inr (c # cs))
   \<and> (\<forall>c cs. 128 \<le> (of_char c :: nat)
        \<longrightarrow> capitalizeFirst up (JStr (c # cs)) = Inr (up c @ cs))
   \<and> capitalizeFirst up JNull = Inl TypeError
   \<and> capitalizeFirst up JUndefined = Inl TypeError"
proof -
  have letter: "capitalizeFirst up (JStr (l # cs)) = Inr (u # cs)"
    if "(l, u) \<in> set (zip ''abcdefghijklmnopqrstuvwxyz'' ''ABCDEFGHIJKLMNOPQRSTUVWXYZ'')"
    for l u cs
  proof -
    have "toUpperCase_ascii l = u"
      using bspec [OF toUpperCase_ascii_letters [unfolded list_all_iff] that] by simp
    moreover have "l \<in> set ''abcdefghijklmnopqrstuvwxyz''"
      using that by (rule set_zip_leftD)
    then have "(of_char l :: nat) < 128"
      using ascii_letters [of l] by linarith
    ultimately show ?thesis
      by (simp add: toUpperCase_def charAt_def slice_def)
  qed
  have other: "capitalizeFirst up (JStr (c # cs)) = Inr (c # cs)"
    if "(of_char c :: nat) < 128 \<and> c \<notin> set ''abcdefghijklmnopqrstuvwxyz''" for c cs
  proof -
    have "\<not> (97 \<le> (of_char c :: nat) \<and> (of_char c :: nat) \<le> 122)"
      using that ascii_letters [of c] by blast
    then have "toUpperCase_ascii c = c"
      unfolding toUpperCase_ascii_def Let_def by (rule if_not_P)
    moreover have "(of_char c :: nat) < 128"
      using that by (rule conjunct1)
    ultimately show ?thesis
      by (simp add: toUpperCase_def charAt_def slice_def)
  qed
  have above: "capitalizeFirst up (JStr (c # cs)) = Inr (up c @ cs)"
    if "128 \<le> (of_char c :: nat)" for c cs
    using that by (simp add: toUpperCase_def charAt_def slice_def)
  show ?thesis
    using letter other above
    by (simp add: toUpperCase_def charAt_def slice_def del: set_simps zip_Cons_Cons)
qed

text \<open>
  \<open>capitalizeFirst('food')\<close> is \<open>'Food'\<close> and \<open>capitalizeFirst('4x')\<close> is \<open>'4x'\<close>; on
  an engine that upper-cases the sharp s (written here as the character 223) to \<open>SS\<close>,
  a string of the sharp s and \<open>a\<close> gives \<open>'SSa'\<close>.
\<close>

theorem capitalizeFirst_total_on_strings_witness:
  "(CHR ''f'', CHR ''F'') \<in> set (zip ''abcdefghijklmnopqrstuvwxyz'' ''ABCDEFGHIJKLMNOPQRSTUVWXYZ'')
   \<and> capitalizeFirst (\<lambda>c. ''SS'') (JStr ''food'') = Inr ''Food''
   \<and> (of_char CHR ''4'' :: nat) < 128 \<and> CHR ''4'' \<notin> set ''abcdefghijklmnopqrstuvwxyz''
   \<and> capitalizeFirst (\<lambda>c. ''SS'') (JStr ''4x'') = Inr ''4x''
   \<and> 128 \<le> (of_char (char_of (223 :: nat)) :: nat)
   \<and> capitalizeFirst (\<lambda>c. ''SS'') (JStr [char_of (223 :: nat), CHR ''a'']) = Inr ''SSa''"
proof -
  have f: "(CHR ''f'', CHR ''F'') \<in> set (zip ''abcdefghijklmnopqrstuvwxyz'' ''ABCDEFGHIJKLMNOPQRSTUVWXYZ'')"
    by simp
  have d: "(of_char CHR ''4'' :: nat) < 128 \<and> CHR ''4'' \<notin> set ''abcdefghijklmnopqrstuvwxyz''"
    by simp
  have s: "128 \<le> (of_char (char_of (223 :: nat)) :: nat)"
    by simp
  note all = capitalizeFirst_total_on_strings [of "\<lambda>c. ''SS''"]
  have "capitalizeFirst (\<lambda>c. ''SS'') (JStr (CHR ''f'' # ''ood'')) = Inr (CHR ''F'' # ''ood'')"
    using all f by blast
  moreover have "capitalizeFirst (\<lambda>c. ''SS'') (JStr (CHR ''4'' # ''x'')) = Inr (CHR ''4'' # ''x'')"
    using all d by blast
  moreover have "capitalizeFirst (\<lambda>c. ''SS'') (JStr (char_of (223 :: nat) # ''a''))
      = Inr (''SS'' @ ''a'')"
    using all s by blast
  ultimately show ?thesis
    using f d s by (simp del: capitalizeFirst.simps set_simps zip_Cons_Cons)
qed

text \<open>
  A category outside the seven known ones gets the default colour and the default icon,
  as long as its name is not one that every object inherits.
\<close>

lemma category_defaults:
  assumes "category \<notin> set known_categories" and "category \<notin> set Object_prototype"
  shows "categoryColor category = JStr ''#999'' \<and> categoryIcon category = JStr ''U+1F4CB''"
  using assms
  by (simp add: categoryColor_def categoryIcon_def index_def js_or_def getCategoryColors_def
      getCategoryIcons_def known_categories_def)

section \<open>Properties of the API\<close>

lemma apiFetch_cases:
  "apiFetch endpoint w =
     (case apiFetch_body endpoint w of
        (Inl e, w1) \<Rightarrow> (Inl e, console_error ([Lit ''Error fetching ''] @ endpoint @ [Lit '':'']) e w1)
      | (Inr x, w1) \<Rightarrow> (Inr x, w1))"
  by (simp add: apiFetch_def try_catch_def split: prod.splits sum.splits)

lemma apiFetch_body_analyticsData:
  "analyticsData (snd (apiFetch_body endpoint w)) = analyticsData w"
  by (simp add: apiFetch_body_def Let_def split: option.splits reply.splits)

lemma apiFetch_analyticsData:
  "analyticsData (snd (apiFetch endpoint w)) = analyticsData w"
  using apiFetch_body_analyticsData [of endpoint w]
  by (cases "apiFetch_body endpoint w")
     (auto simp add: apiFetch_cases console_error_def split: sum.splits)

lemma store_after_apiFetch:
  "(case js_bind (apiFetch endpoint) (\<lambda>data w. (Inr data, w\<lparr>analyticsData := upd data (analyticsData w)\<rparr>)) w of
      (Inl e, w') \<Rightarrow> analyticsData w' = analyticsData w
    | (Inr payload, w') \<Rightarrow> analyticsData w' = upd payload (analyticsData w))"
  using apiFetch_analyticsData [of endpoint w]
  by (cases "apiFetch endpoint w") (auto simp add: js_bind_def split: sum.splits)

text \<open>
  C5. For each of the six fetch operations: when it throws, the snapshot is what it was
  before the call; when it returns a payload, the snapshot is the one before the call
  with that view's slot set to the payload, the other five slots unchanged.
\<close>

theorem fetch_last_good_value:
  "(case fetchSpendingTrends period months w of
      (Inl e, w') \<Rightarrow> analyticsData w' = analyticsData w
    | (Inr payload, w') \<Rightarrow> analyticsData w' = (analyticsData w)\<lparr>trends := payload\<rparr>)
   \<and> (case fetchCategoryBreakdown type startDate endDate w of
      (Inl e, w') \<Rightarrow> analyticsData w' = analyticsData w
    | (Inr payload, w') \<Rightarrow> analyticsData w' = (analyticsData w)\<lparr>categoryBreakdown := payload\<rparr>)
   \<and> (case fetchInsights w of
      (Inl e, w') \<Rightarrow> analyticsData w' = analyticsData w
    | (Inr payload, w') \<Rightarrow> analyticsData w' = (analyticsData w)\<lparr>insights := payload\<rparr>)
   \<and> (case fetchPredictions w of
      (Inl e, w') \<Rightarrow> analyticsData w' = analyticsData w
    | (Inr payload, w') \<Rightarrow> analyticsData w' = (analyticsData w)\<lparr>predictions := payload\<rparr>)
   \<and> (case fetchSpendingVelocity w of
      (Inl e, w') \<Rightarrow> analyticsData w' = analyticsData w
    | (Inr payload, w') \<Rightarrow> analyticsData w' = (analyticsData w)\<lparr>velocity := payload\<rparr>)
   \<and> (case fetchForecast w of
      (Inl e, w') \<Rightarrow> analyticsData w' = analyticsData w
    | (Inr payload, w') \<Rightarrow> analyticsData w' = (analyticsData w)\<lparr>forecast := payload\<rparr>)"
  unfolding fetchSpendingTrends_def fetchCategoryBreakdown_def fetchInsights_def
    fetchPredictions_def fetchSpendingVelocity_def fetchForecast_def Let_def
  by (intro conjI)
     (rule store_after_apiFetch [where upd = "\<lambda>d s. s\<lparr>trends := d\<rparr>"],
      rule store_after_apiFetch [where upd = "\<lambda>d s. s\<lparr>categoryBreakdown := d\<rparr>"],
      rule store_after_apiFetch [where upd = "\<lambda>d s. s\<lparr>insights := d\<rparr>"],
      rule store_after_apiFetch [where upd = "\<lambda>d s. s\<lparr>predictions := d\<rparr>"],
      rule store_after_apiFetch [where upd = "\<lambda>d s. s\<lparr>velocity := d\<rparr>"],
      rule store_after_apiFetch [where upd = "\<lambda>d s. s\<lparr>forecast := d\<rparr>"])

lemma apiFetch_no_token:
  "authToken w = None \<Longrightarrow>
   fst (apiFetch endpoint w) = Inl AuthError \<and> requests (snd (apiFetch endpoint w)) = requests w"
  by (simp add: apiFetch_cases apiFetch_body_def console_error_def)

lemma bind_apiFetch_no_token:
  "authToken w = None \<Longrightarrow>
   fst (js_bind (apiFetch endpoint) f w) = Inl AuthError
   \<and> requests (snd (js_bind (apiFetch endpoint) f w)) = requests w"
  using apiFetch_no_token [of w endpoint]
  by (cases "apiFetch endpoint w") (auto simp add: js_bind_def split: sum.splits)

text \<open>
  C6. With no token stored, each of the six fetch operations throws the
  missing-credential error and the list of requests sent is what it was: no network
  request is attempted.
\<close>

theorem no_token_no_request:
  assumes "authToken w = None"
  shows "fst (fetchSpendingTrends period months w) = Inl AuthError
     \<and> requests (snd (fetchSpendingTrends period months w)) = requests w
     \<and> fst (fetchCategoryBreakdown type startDate endDate w) = Inl AuthError
     \<and> requests (snd (fetchCategoryBreakdown type startDate endDate w)) = requests w
     \<and> fst (fetchInsights w) = Inl AuthError
     \<and> requests (snd (fetchInsights w)) = requests w
     \<and> fst (fetchPredictions w) = Inl AuthError
     \<and> requests (snd (fetchPredictions w)) = requests w
     \<and> fst (fetchSpendingVelocity w) = Inl AuthError
     \<and> requests (snd (fetchSpendingVelocity w)) = requests w
     \<and> fst (fetchForecast w) = Inl AuthError
     \<and> requests (snd (fetchForecast w)) = requests w"
proof -
  note rejected = bind_apiFetch_no_token [OF assms, THEN conjunct1]
  note silent = bind_apiFetch_no_token [OF assms, THEN conjunct2]
  show ?thesis
    unfolding fetchSpendingTrends_def fetchCategoryBreakdown_def fetchInsights_def
      fetchPredictions_def fetchSpendingVelocity_def fetchForecast_def Let_def
    by (intro conjI; (rule rejected | rule silent))
qed

text \<open>
  The scenario of C6: \<open>fetchSpendingTrends('monthly', 6)\<close> on a page with no token.
\<close>

theorem no_token_no_request_witness:
  "authToken (demo\<lparr>authToken := None\<rparr>) = None
   \<and> fst (fetchSpendingTrends (JStr ''monthly'') (JNum (Fin 6)) (demo\<lparr>authToken := None\<rparr>))
       = Inl (Error [Lit ''No authentication token found''])
   \<and> requests (snd (fetchSpendingTrends (JStr ''monthly'') (JNum (Fin 6))
       (demo\<lparr>authToken := None\<rparr>))) = []"
  using no_token_no_request [of "demo\<lparr>authToken := None\<rparr>" "JStr ''monthly''" "JNum (Fin 6)"]
  by (simp add: demo_def AuthError_def)

section \<open>Rounding to a double\<close>











text \<open>The width the code computes for day 15 and for day 1.\<close>

lemma progressPercent_day_15: "progressPercent c (JNum (Fin 15)) = Inr (Fin 50)"
  by code_simp


section \<open>Properties of the renderers\<close>

text \<open>What the formatter and the interpolation make of a number: they never throw.\<close>

lemma interpolate_number: "interpolate (JNum n) = Inr ()"
  by (simp add: interpolate_def)

lemma formatAnalyticsCurrency_number:
  "i18n w = None \<Longrightarrow> formatAnalyticsCurrency w (JNum n) = Inr ()"
  by (simp add: formatAnalyticsCurrency_def getAnalyticsCurrency_def sbind_def js_or_def
      interpolate_def)

lemma formatAnalyticsCurrency_undefined:
  "i18n w = None \<Longrightarrow> formatAnalyticsCurrency w JUndefined = Inr ()"
  by (simp add: formatAnalyticsCurrency_def getAnalyticsCurrency_def sbind_def js_or_def
      interpolate_def)




text \<open>The demo payload is drawn in full.\<close>

lemma renderVelocityWidget_demo:
  "renderVelocityWidget demo_velocity demo =
     (Inr (), demo\<lparr>dom := (dom demo)(''velocity-widget'' \<mapsto>
        VelocityWidget (JNum (Fin 15)) (JNum (Fin 500)) (JNum (double (333 / 10)))
          (JNum (Fin 1000)) (Fin 50) (JNum (Fin 15)))\<rparr>)"
proof -
  have page: "dom demo ''velocity-widget'' = Some Empty"
    by (simp add: demo_def demo_page_def containers_def)
  have plain: "i18n demo = None"
    by (simp add: demo_def)
  show ?thesis
    using page
    by (simp add: renderVelocityWidget_def with_container_def sbind_def demo_velocity_def
        progressPercent_day_15 interpolate_number formatAnalyticsCurrency_number [OF plain])
qed



text \<open>
  C4, where the code departs from it. \<open>renderVelocityWidget\<close> does not call
  \<open>isValidData\<close>: for the empty object, which \<open>isValidData\<close> rejects, it draws a widget
  out of \<open>undefined\<close> fields and a NaN width instead of the placeholder, and for
  \<open>null\<close> it throws a TypeError on reading \<open>dayOfMonth\<close>, leaving the region as it was.
\<close>

theorem renderVelocityWidget_skips_check:
  "returns_falsy (isValidData (JObj []))
   \<and> renderVelocityWidget (JObj []) demo =
       (Inr (), demo\<lparr>dom := (dom demo)(''velocity-widget'' \<mapsto>
          VelocityWidget JUndefined JUndefined JUndefined JUndefined NaN JUndefined)\<rparr>)
   \<and> returns_falsy (isValidData JNull)
   \<and> fst (renderVelocityWidget JNull demo) = Inl TypeError
   \<and> dom (snd (renderVelocityWidget JNull demo)) ''velocity-widget'' = Some Empty"
proof -
  have page: "dom demo ''velocity-widget'' = Some Empty"
    by (simp add: demo_def demo_page_def containers_def)
  have plain: "i18n demo = None"
    by (simp add: demo_def)
  show ?thesis
    using page
    by (simp add: renderVelocityWidget_def with_container_def sbind_def isValidData_def
        returns_falsy_def progressPercent_def interpolate_def
        formatAnalyticsCurrency_undefined [OF plain])
qed

text \<open>
  The other five renderers do check first: a payload that \<open>isValidData\<close> rejects (for
  the category chart, a rejected \<open>categories\<close> list) gives the placeholder.
\<close>

lemma other_renderers_check_first:
  assumes "returns_falsy (isValidData payload)"
  shows "dom w ''trends-chart'' = Some c \<Longrightarrow>
           renderTrendsChart payload w =
             (Inr (), w\<lparr>dom := (dom w)(''trends-chart'' \<mapsto> NoData ''No trend data available'')\<rparr>)"
    and "dom w ''insights-widget'' = Some c \<Longrightarrow>
           renderInsightsWidget payload w =
             (Inr (), w\<lparr>dom := (dom w)(''insights-widget'' \<mapsto> NoData ''No insights available'')\<rparr>)"
    and "dom w ''predictions-widget'' = Some c \<Longrightarrow>
           renderPredictionsWidget payload w =
             (Inr (), w\<lparr>dom := (dom w)(''predictions-widget'' \<mapsto> NoData ''No predictions available'')\<rparr>)"
    and "dom w ''forecast-widget'' = Some c \<Longrightarrow>
           renderForecastWidget payload w =
             (Inr (), w\<lparr>dom := (dom w)(''forecast-widget'' \<mapsto> NoData ''No forecast data available'')\<rparr>)"
  using assms
  by (auto simp add: renderTrendsChart_def renderInsightsWidget_def renderPredictionsWidget_def
      renderForecastWidget_def with_container_def returns_falsy_def split: sum.splits)

lemma renderCategoryChart_checks_first:
  assumes "returns_falsy (sbind (optional_field payload ''categories'') isValidData)"
    and "dom w ''category-chart'' = Some c"
  shows "renderCategoryChart payload w =
     (Inr (), w\<lparr>dom := (dom w)(''category-chart'' \<mapsto> NoData ''No expense data available'')\<rparr>)"
  using assms
  by (auto simp add: renderCategoryChart_def with_container_def returns_falsy_def
      split: sum.splits)

text \<open>
  C8, where the code departs from it. The category \<open>constructor\<close> is outside the closed
  set, yet \<open>categoryColors['constructor']\<close> and \<open>categoryIcons['constructor']\<close> find the
  function every object inherits under that name, which is truthy, so the \<open>||\<close> never
  reaches the default: the pie chart is given the inherited function as the colour and
  as the icon of that slice.
\<close>

theorem category_lookup_inherited_key:
  "''constructor'' \<notin> set known_categories
   \<and> categoryColor ''constructor'' = JNative ''constructor''
   \<and> categoryIcon ''constructor'' = JNative ''constructor''
   \<and> dom (snd (renderCategoryChart
        (JObj [(''categories'',
                JArr [JObj [(''category'', JStr ''constructor''), (''total'', JNum (Fin 10))]]),
               (''grandTotal'', JNum (Fin 10))]) demo)) ''category-chart''
      = Some (CategoryCanvas (JNum (Fin 10))
          (Some (PieChart [(JNative ''constructor'', ''Constructor'')] [JNum (Fin 10)]
             [JNative ''constructor''] [JNative ''constructor''])))"
proof -
  have page: "dom demo ''category-chart'' = Some Empty"
    by (simp add: demo_def demo_page_def containers_def)
  have lib: "chartjs demo = None"
    by (simp add: demo_def)
  have colour: "categoryColor ''constructor'' = JNative ''constructor''"
    by (simp add: categoryColor_def index_def js_or_def getCategoryColors_def
        Object_prototype_def)
  have icon: "categoryIcon ''constructor'' = JNative ''constructor''"
    by (simp add: categoryIcon_def index_def js_or_def getCategoryIcons_def
        Object_prototype_def)
  have plain: "i18n demo = None"
    by (simp add: demo_def)
  have name: "capitalizeFirst up (JStr ''constructor'') = Inr ''Constructor''" for up
    by code_simp
  have "category_slice up
          (JObj [(''category'', JStr ''constructor''), (''total'', JNum (Fin 10))])
      = Inr ((JNative ''constructor'', ''Constructor''), JNum (Fin 10), JNative ''constructor'')"
    for up
    unfolding category_slice_def by (simp add: sbind_def colour icon name del: capitalizeFirst.simps)
  then show ?thesis
    using page lib colour icon
    by (simp add: renderCategoryChart_def with_container_def sbind_def optional_field_def
        isValidData_def known_categories_def formatAnalyticsCurrency_number [OF plain])
qed

section \<open>Tasks are confined to their regions\<close>

lemma same_env_refl: "same_env w w"
  by (simp add: same_env_def)

lemma same_env_trans: "same_env a b \<Longrightarrow> same_env b c \<Longrightarrow> same_env a c"
  by (simp add: same_env_def)

lemma same_env_sym: "same_env a b \<Longrightarrow> same_env b a"
  by (simp add: same_env_def)

lemma confinedI:
  assumes "\<And>w. same_env w (snd (m w))"
    and "\<And>w. analyticsDashboard (snd (m w)) = analyticsDashboard w"
    and "\<And>w r. r \<noteq> i \<Longrightarrow> dom (snd (m w)) r = dom w r"
    and "\<And>w w'. same_env w w' \<Longrightarrow> dom w' i = dom w i \<Longrightarrow> fst (m w') = fst (m w)"
    and "\<And>w w'. same_env w w' \<Longrightarrow> dom w' i = dom w i \<Longrightarrow>
           dom (snd (m w')) i = dom (snd (m w)) i"
  shows "confined i m"
  using assms unfolding confined_def by blast

lemma confined_env: "confined i m \<Longrightarrow> same_env w (snd (m w))"
  by (simp add: confined_def)

lemma confined_dashboard:
  "confined i m \<Longrightarrow> analyticsDashboard (snd (m w)) = analyticsDashboard w"
  by (simp add: confined_def)

lemma confined_other: "confined i m \<Longrightarrow> r \<noteq> i \<Longrightarrow> dom (snd (m w)) r = dom w r"
  by (simp add: confined_def)

lemma confined_fst:
  "confined i m \<Longrightarrow> same_env w w' \<Longrightarrow> dom w' i = dom w i \<Longrightarrow> fst (m w') = fst (m w)"
  unfolding confined_def by blast

lemma confined_own:
  "confined i m \<Longrightarrow> same_env w w' \<Longrightarrow> dom w' i = dom w i \<Longrightarrow>
   dom (snd (m w')) i = dom (snd (m w)) i"
  unfolding confined_def by blast

lemma confined_env2:
  assumes "confined i m" "same_env w w'"
  shows "same_env (snd (m w)) (snd (m w'))"
  by (meson assms confined_env same_env_sym same_env_trans)

lemma js_bind_Inl: "fst (m w) = Inl e \<Longrightarrow> js_bind m f w = (Inl e, snd (m w))"
  by (cases "m w") (simp add: js_bind_def)

lemma js_bind_Inr: "fst (m w) = Inr x \<Longrightarrow> js_bind m f w = f x (snd (m w))"
  by (cases "m w") (simp add: js_bind_def)

lemma try_catch_Inl: "fst (m w) = Inl e \<Longrightarrow> try_catch m h w = h e (snd (m w))"
  by (cases "m w") (simp add: try_catch_def)

lemma try_catch_Inr: "fst (m w) = Inr x \<Longrightarrow> try_catch m h w = (Inr x, snd (m w))"
  by (cases "m w") (simp add: try_catch_def)

lemma confined_bind:
  assumes m: "confined i m" and f: "\<And>x. confined i (f x)"
  shows "confined i (js_bind m f)"
proof (rule confinedI)
  fix w
  show "same_env w (snd (js_bind m f w))"
  proof (cases "fst (m w)")
    case (Inl e)
    then show ?thesis using confined_env [OF m] by (simp add: js_bind_Inl)
  next
    case (Inr x)
    then show ?thesis
      using confined_env [OF m, of w] confined_env [OF f, of "snd (m w)" x]
      by (auto simp add: js_bind_Inr intro: same_env_trans)
  qed
next
  fix w
  show "analyticsDashboard (snd (js_bind m f w)) = analyticsDashboard w"
    using confined_dashboard [OF m, of w] confined_dashboard [OF f, of _ "snd (m w)"]
    by (cases "fst (m w)") (simp_all add: js_bind_Inl js_bind_Inr)
next
  fix w r assume "r \<noteq> i"
  then show "dom (snd (js_bind m f w)) r = dom w r"
    using confined_other [OF m, of r w] confined_other [OF f, of r _ "snd (m w)"]
    by (cases "fst (m w)") (simp_all add: js_bind_Inl js_bind_Inr)
next
  fix w w' assume e: "same_env w w'" and d: "dom w' i = dom w i"
  have 1: "fst (m w') = fst (m w)" using confined_fst [OF m e d] .
  have 2: "dom (snd (m w')) i = dom (snd (m w)) i" using confined_own [OF m e d] .
  have 3: "same_env (snd (m w)) (snd (m w'))" using confined_env2 [OF m e] .
  show "fst (js_bind m f w') = fst (js_bind m f w)"
  proof (cases "fst (m w)")
    case (Inl e)
    then show ?thesis using 1 by (simp add: js_bind_Inl)
  next
    case (Inr x)
    then show ?thesis using 1 confined_fst [OF f 3 2] by (simp add: js_bind_Inr)
  qed
  show "dom (snd (js_bind m f w')) i = dom (snd (js_bind m f w)) i"
  proof (cases "fst (m w)")
    case (Inl e)
    then show ?thesis using 1 2 by (simp add: js_bind_Inl)
  next
    case (Inr x)
    then show ?thesis using 1 confined_own [OF f 3 2] by (simp add: js_bind_Inr)
  qed
qed

lemma confined_try_catch:
  assumes m: "confined i m" and h: "\<And>e. confined i (h e)"
  shows "confined i (try_catch m h)"
proof (rule confinedI)
  fix w
  show "same_env w (snd (try_catch m h w))"
  proof (cases "fst (m w)")
    case (Inl e)
    then show ?thesis
      using confined_env [OF m, of w] confined_env [OF h, of "snd (m w)" e]
      by (auto simp add: try_catch_Inl intro: same_env_trans)
  next
    case (Inr x)
    then show ?thesis using confined_env [OF m] by (simp add: try_catch_Inr)
  qed
next
  fix w
  show "analyticsDashboard (snd (try_catch m h w)) = analyticsDashboard w"
    using confined_dashboard [OF m, of w] confined_dashboard [OF h, of _ "snd (m w)"]
    by (cases "fst (m w)") (simp_all add: try_catch_Inl try_catch_Inr)
next
  fix w r assume "r \<noteq> i"
  then show "dom (snd (try_catch m h w)) r = dom w r"
    using confined_other [OF m, of r w] confined_other [OF h, of r _ "snd (m w)"]
    by (cases "fst (m w)") (simp_all add: try_catch_Inl try_catch_Inr)
next
  fix w w' assume e: "same_env w w'" and d: "dom w' i = dom w i"
  have 1: "fst (m w') = fst (m w)" using confined_fst [OF m e d] .
  have 2: "dom (snd (m w')) i = dom (snd (m w)) i" using confined_own [OF m e d] .
  have 3: "same_env (snd (m w)) (snd (m w'))" using confined_env2 [OF m e] .
  show "fst (try_catch m h w') = fst (try_catch m h w)"
  proof (cases "fst (m w)")
    case (Inl e)
    then show ?thesis using 1 confined_fst [OF h 3 2] by (simp add: try_catch_Inl)
  next
    case (Inr x)
    then show ?thesis using 1 by (simp add: try_catch_Inr)
  qed
  show "dom (snd (try_catch m h w')) i = dom (snd (try_catch m h w)) i"
  proof (cases "fst (m w)")
    case (Inl e)
    then show ?thesis using 1 confined_own [OF h 3 2] by (simp add: try_catch_Inl)
  next
    case (Inr x)
    then show ?thesis using 1 2 by (simp add: try_catch_Inr)
  qed
qed

lemma apiFetch_body_env:
  "same_env w (snd (apiFetch_body endpoint w))
   \<and> analyticsDashboard (snd (apiFetch_body endpoint w)) = analyticsDashboard w
   \<and> dom (snd (apiFetch_body endpoint w)) = dom w"
  by (simp add: apiFetch_body_def same_env_def Let_def split: option.splits reply.splits)

lemma apiFetch_body_fst:
  "same_env w w' \<Longrightarrow> fst (apiFetch_body endpoint w') = fst (apiFetch_body endpoint w)"
  by (simp add: apiFetch_body_def same_env_def Let_def getAuthHeaders_def
      split: option.splits reply.splits)

lemma apiFetch_fst: "fst (apiFetch endpoint w) = fst (apiFetch_body endpoint w)"
  by (cases "apiFetch_body endpoint w")
     (simp add: apiFetch_def try_catch_def split: sum.splits)

lemma apiFetch_env:
  "same_env w (snd (apiFetch endpoint w))
   \<and> analyticsDashboard (snd (apiFetch endpoint w)) = analyticsDashboard w
   \<and> dom (snd (apiFetch endpoint w)) = dom w"
  using apiFetch_body_env [of w endpoint]
  by (cases "apiFetch_body endpoint w")
     (auto simp add: apiFetch_def try_catch_def console_error_def same_env_def
        split: sum.splits)

lemma confined_apiFetch: "confined i (apiFetch endpoint)"
  by (rule confinedI)
     (simp_all add: apiFetch_env apiFetch_fst apiFetch_body_fst)

lemma confined_store:
  "confined i (\<lambda>w. (Inr x, w\<lparr>analyticsData := g (analyticsData w)\<rparr>))"
  by (rule confinedI) (simp_all add: same_env_def)

lemma confined_with_container:
  assumes "\<And>w w'. same_env w w' \<Longrightarrow> rest w' = rest w"
  shows "confined i (\<lambda>w. with_container i (rest w) w)"
proof (rule confinedI)
  fix w
  show "same_env w (snd (with_container i (rest w) w))"
    by (simp add: with_container_def same_env_def split: option.splits prod.splits)
next
  fix w
  show "analyticsDashboard (snd (with_container i (rest w) w)) = analyticsDashboard w"
    by (simp add: with_container_def split: option.splits prod.splits)
next
  fix w r assume "r \<noteq> i"
  then show "dom (snd (with_container i (rest w) w)) r = dom w r"
    by (simp add: with_container_def split: option.splits prod.splits)
next
  fix w w' assume e: "same_env w w'" and d: "dom w' i = dom w i"
  show "fst (with_container i (rest w') w') = fst (with_container i (rest w) w)"
    using assms [OF e] d by (simp add: with_container_def split: option.splits prod.splits)
  show "dom (snd (with_container i (rest w') w')) i = dom (snd (with_container i (rest w) w)) i"
    using assms [OF e] d by (simp add: with_container_def split: option.splits prod.splits)
qed

lemma confined_showChartError:
  "confined i (\<lambda>w. (Inr x, showChartError i message (console_error label e w)))"
  by (rule confinedI)
     (simp_all add: showChartError_def console_error_def same_env_def split: option.splits)

lemma showWidgetError_eq: "showWidgetError = showChartError"
  by (intro ext) (simp add: showWidgetError_def showChartError_def)

lemma confined_reader:
  assumes "\<And>w0. confined i (m w0)" and "\<And>w w'. same_env w w' \<Longrightarrow> m w' = m w"
  shows "confined i (\<lambda>w. m w w)"
proof (rule confinedI)
  fix w show "same_env w (snd (m w w))" using confined_env [OF assms(1)] .
next
  fix w show "analyticsDashboard (snd (m w w)) = analyticsDashboard w"
    using confined_dashboard [OF assms(1)] .
next
  fix w r assume "r \<noteq> i"
  then show "dom (snd (m w w)) r = dom w r" using confined_other [OF assms(1)] by blast
next
  fix w w' assume e: "same_env w w'" and d: "dom w' i = dom w i"
  show "fst (m w' w') = fst (m w w)"
    using assms(2) [OF e] confined_fst [OF assms(1) e d] by simp
  show "dom (snd (m w' w')) i = dom (snd (m w w)) i"
    using assms(2) [OF e] confined_own [OF assms(1) e d] by simp
qed

lemma same_env_formatAnalyticsCurrency:
  assumes "same_env w w'"
  shows "formatAnalyticsCurrency w' = formatAnalyticsCurrency w"
proof -
  have hooks: "i18n w' = i18n w" and numbers: "coerce w' = coerce w"
    using assms by (simp_all add: same_env_def)
  have settings: "getAnalyticsLocale w' = getAnalyticsLocale w"
    "getAnalyticsCurrency w' = getAnalyticsCurrency w"
    by (simp_all add: getAnalyticsLocale_def getAnalyticsCurrency_def hooks)
  show ?thesis
    unfolding formatAnalyticsCurrency_def hooks numbers settings by (rule refl)
qed

lemma same_env_prediction_item:
  assumes "same_env w w'"
  shows "prediction_item w' = prediction_item w"
proof -
  have money: "formatAnalyticsCurrency w' = formatAnalyticsCurrency w"
    using assms by (rule same_env_formatAnalyticsCurrency)
  have letters: "upperCase w' = upperCase w" and numbers: "coerce w' = coerce w"
    using assms by (simp_all add: same_env_def)
  show ?thesis
    unfolding prediction_item_def formatPercentage_def money letters numbers by (rule refl)
qed

lemma confined_renderTrendsChart: "confined ''trends-chart'' (renderTrendsChart payload)"
  unfolding renderTrendsChart_def
  by (rule confined_with_container) (auto simp only: same_env_def)

lemma confined_renderCategoryChart: "confined ''category-chart'' (renderCategoryChart payload)"
  unfolding renderCategoryChart_def
  apply (rule confined_with_container)
  apply (frule same_env_formatAnalyticsCurrency)
  apply (auto simp only: same_env_def)
  done

lemma confined_renderInsightsWidget: "confined ''insights-widget'' (renderInsightsWidget payload)"
  unfolding renderInsightsWidget_def
  by (rule confined_with_container) (auto simp only: same_env_def)

lemma confined_renderPredictionsWidget:
  "confined ''predictions-widget'' (renderPredictionsWidget payload)"
  unfolding renderPredictionsWidget_def
  apply (rule confined_with_container)
  apply (frule same_env_prediction_item)
  apply (auto simp only: same_env_def)
  done

lemma confined_renderVelocityWidget: "confined ''velocity-widget'' (renderVelocityWidget payload)"
  unfolding renderVelocityWidget_def
  apply (rule confined_with_container)
  apply (frule same_env_formatAnalyticsCurrency)
  apply (auto simp only: same_env_def)
  done

lemma confined_renderForecastWidget: "confined ''forecast-widget'' (renderForecastWidget payload)"
  unfolding renderForecastWidget_def
  apply (rule confined_with_container)
  apply (frule same_env_formatAnalyticsCurrency)
  apply (auto simp only: same_env_def)
  done

lemma confined_load: "confined (region v) (load v)"
proof (cases v)
  case Trends
  have "confined ''trends-chart'' (\<lambda>w. loadTrendsData w)"
    unfolding loadTrendsData_def fetchSpendingTrends_def
    by (rule confined_reader)
       (auto intro!: confined_try_catch confined_bind confined_apiFetch confined_store
          confined_renderTrendsChart confined_showChartError simp add: same_env_def)
  then show ?thesis using Trends by simp
next
  case CategoryBreakdown
  then show ?thesis
    by (auto simp add: loadCategoryData_def fetchCategoryBreakdown_def Let_def
        intro!: confined_try_catch confined_bind confined_apiFetch confined_store
          confined_renderCategoryChart confined_showChartError)
next
  case Insights
  then show ?thesis
    by (auto simp add: loadInsightsData_def fetchInsights_def showWidgetError_eq
        intro!: confined_try_catch confined_bind confined_apiFetch confined_store
          confined_renderInsightsWidget confined_showChartError)
next
  case Predictions
  then show ?thesis
    by (auto simp add: loadPredictionsData_def fetchPredictions_def showWidgetError_eq
        intro!: confined_try_catch confined_bind confined_apiFetch confined_store
          confined_renderPredictionsWidget confined_showChartError)
next
  case Velocity
  then show ?thesis
    by (auto simp add: loadVelocityData_def fetchSpendingVelocity_def showWidgetError_eq
        intro!: confined_try_catch confined_bind confined_apiFetch confined_store
          confined_renderVelocityWidget confined_showChartError)
next
  case Forecast
  then show ?thesis
    by (auto simp add: loadForecastData_def fetchForecast_def showWidgetError_eq
        intro!: confined_try_catch confined_bind confined_apiFetch confined_store
          confined_renderForecastWidget confined_showChartError)
qed

lemma bind_apiFetch_dom:
  assumes "\<And>x w. dom (snd (f x w)) = dom w"
  shows "dom (snd (js_bind (apiFetch endpoint) f w)) = dom w"
  using apiFetch_env [of w endpoint] assms
  by (cases "apiFetch endpoint w") (auto simp add: js_bind_def split: sum.splits)

lemma fetch_dom: "dom (snd (fetch v w)) = dom w"
  by (cases v)
     (auto simp add: fetchSpendingTrends_def fetchCategoryBreakdown_def fetchInsights_def
        fetchPredictions_def fetchSpendingVelocity_def fetchForecast_def Let_def
        intro!: bind_apiFetch_dom)

lemma load_as_task:
  "load v w =
     try_catch (js_bind (fetch v) (case v of
         Trends \<Rightarrow> renderTrendsChart | CategoryBreakdown \<Rightarrow> renderCategoryChart
       | Insights \<Rightarrow> renderInsightsWidget | Predictions \<Rightarrow> renderPredictionsWidget
       | Velocity \<Rightarrow> renderVelocityWidget | Forecast \<Rightarrow> renderForecastWidget))
       (\<lambda>error w. (Inr (), showChartError (region v) (failure_message v)
           (console_error [Lit (case v of
               Trends \<Rightarrow> ''Error loading trends:''
             | CategoryBreakdown \<Rightarrow> ''Error loading categories:''
             | Insights \<Rightarrow> ''Error loading insights:''
             | Predictions \<Rightarrow> ''Error loading predictions:''
             | Velocity \<Rightarrow> ''Error loading velocity:''
             | Forecast \<Rightarrow> ''Error loading forecast:'')] error w))) w"
proof -
  have eta: "\<And>m :: jsval js. (\<lambda>w. m w) = m" by simp
  have f: "fetch Trends = (\<lambda>w. fetchSpendingTrends (currentPeriod (analyticsDashboard w))
       (currentMonths (analyticsDashboard w)) w)"
    "fetch CategoryBreakdown = fetchCategoryBreakdown JUndefined JUndefined JUndefined"
    "fetch Insights = fetchInsights" "fetch Predictions = fetchPredictions"
    "fetch Velocity = fetchSpendingVelocity" "fetch Forecast = fetchForecast"
    by (intro ext, simp)+
  show ?thesis
  proof (cases v)
    case Trends
    then show ?thesis
      by (simp add: f loadTrendsData_def try_catch_def js_bind_def)
  qed (simp_all add: f loadCategoryData_def loadInsightsData_def loadPredictionsData_def
        loadVelocityData_def loadForecastData_def showWidgetError_eq)
qed

lemma load_fulfils: "fst (load v w) = Inr ()"
  unfolding load_as_task
  by (simp add: try_catch_def split: prod.splits sum.splits)

lemma showChartError_dom:
  "dom (showChartError i message (console_error label e w)) i =
     (case dom w i of None \<Rightarrow> None | Some c \<Rightarrow> Some (ErrorState message))"
  by (simp add: showChartError_def console_error_def split: option.splits)

lemma load_fetch_fails:
  assumes "fst (fetch v w) = Inl e"
  shows "dom (snd (load v w)) (region v) =
     (case dom w (region v) of None \<Rightarrow> None | Some c \<Rightarrow> Some (ErrorState (failure_message v)))"
  unfolding load_as_task
  using assms
  by (simp add: try_catch_Inl js_bind_Inl [where m = "fetch v"] showChartError_dom fetch_dom)

lemma with_container_no_spinner:
  assumes "\<And>c c'. rest c = (Inr (), c') \<Longrightarrow> c' \<noteq> LoadingSpinner"
    and "fst (with_container i rest w) = Inr ()"
  shows "dom (snd (with_container i rest w)) i \<noteq> Some LoadingSpinner"
proof (cases "dom w i")
  case None
  then show ?thesis by (simp add: with_container_def)
next
  case (Some c)
  obtain r c' where rc: "rest c = (r, c')" by (cases "rest c")
  with Some assms(2) have "r = Inr ()" by (simp add: with_container_def)
  with rc assms(1) have "c' \<noteq> LoadingSpinner" by blast
  with Some rc show ?thesis by (simp add: with_container_def)
qed

lemma renderTrendsChart_no_spinner:
  "fst (renderTrendsChart payload w) = Inr () \<Longrightarrow>
   dom (snd (renderTrendsChart payload w)) ''trends-chart'' \<noteq> Some LoadingSpinner"
  unfolding renderTrendsChart_def
  by (erule with_container_no_spinner [rotated]) (auto split: sum.splits if_splits)

lemma renderCategoryChart_no_spinner:
  "fst (renderCategoryChart payload w) = Inr () \<Longrightarrow>
   dom (snd (renderCategoryChart payload w)) ''category-chart'' \<noteq> Some LoadingSpinner"
  unfolding renderCategoryChart_def
  by (erule with_container_no_spinner [rotated]) (auto split: sum.splits if_splits)

lemma renderInsightsWidget_no_spinner:
  "fst (renderInsightsWidget payload w) = Inr () \<Longrightarrow>
   dom (snd (renderInsightsWidget payload w)) ''insights-widget'' \<noteq> Some LoadingSpinner"
  unfolding renderInsightsWidget_def
  by (erule with_container_no_spinner [rotated]) (auto split: sum.splits if_splits)

lemma renderPredictionsWidget_no_spinner:
  "fst (renderPredictionsWidget payload w) = Inr () \<Longrightarrow>
   dom (snd (renderPredictionsWidget payload w)) ''predictions-widget'' \<noteq> Some LoadingSpinner"
  unfolding renderPredictionsWidget_def
  by (erule with_container_no_spinner [rotated]) (auto split: sum.splits if_splits)

lemma renderVelocityWidget_no_spinner:
  "fst (renderVelocityWidget payload w) = Inr () \<Longrightarrow>
   dom (snd (renderVelocityWidget payload w)) ''velocity-widget'' \<noteq> Some LoadingSpinner"
  unfolding renderVelocityWidget_def
  by (erule with_container_no_spinner [rotated])
     (auto simp add: sbind_def split: sum.splits if_splits)

lemma renderForecastWidget_no_spinner:
  "fst (renderForecastWidget payload w) = Inr () \<Longrightarrow>
   dom (snd (renderForecastWidget payload w)) ''forecast-widget'' \<noteq> Some LoadingSpinner"
  unfolding renderForecastWidget_def
  by (erule with_container_no_spinner [rotated])
     (auto simp add: sbind_def split: sum.splits if_splits)

lemma render_no_spinner:
  assumes "fst ((case v of
         Trends \<Rightarrow> renderTrendsChart | CategoryBreakdown \<Rightarrow> renderCategoryChart
       | Insights \<Rightarrow> renderInsightsWidget | Predictions \<Rightarrow> renderPredictionsWidget
       | Velocity \<Rightarrow> renderVelocityWidget | Forecast \<Rightarrow> renderForecastWidget) payload w) = Inr ()"
  shows "dom (snd ((case v of
         Trends \<Rightarrow> renderTrendsChart | CategoryBreakdown \<Rightarrow> renderCategoryChart
       | Insights \<Rightarrow> renderInsightsWidget | Predictions \<Rightarrow> renderPredictionsWidget
       | Velocity \<Rightarrow> renderVelocityWidget | Forecast \<Rightarrow> renderForecastWidget) payload w))
       (region v) \<noteq> Some LoadingSpinner"
  using assms renderTrendsChart_no_spinner renderCategoryChart_no_spinner
    renderInsightsWidget_no_spinner renderPredictionsWidget_no_spinner
    renderVelocityWidget_no_spinner renderForecastWidget_no_spinner
  by (cases v) simp_all

lemma load_no_spinner: "dom (snd (load v w)) (region v) \<noteq> Some LoadingSpinner"
proof (cases "fst (fetch v w)")
  case (Inl e)
  then show ?thesis by (simp add: load_fetch_fails split: option.splits)
next
  case (Inr payload)
  let ?render = "case v of
         Trends \<Rightarrow> renderTrendsChart | CategoryBreakdown \<Rightarrow> renderCategoryChart
       | Insights \<Rightarrow> renderInsightsWidget | Predictions \<Rightarrow> renderPredictionsWidget
       | Velocity \<Rightarrow> renderVelocityWidget | Forecast \<Rightarrow> renderForecastWidget"
  let ?w1 = "snd (fetch v w)"
  have b: "js_bind (fetch v) ?render w = ?render payload ?w1"
    using Inr by (simp add: js_bind_Inr [where m = "fetch v"])
  show ?thesis
  proof (cases "fst (?render payload ?w1)")
    case (Inl e)
    then show ?thesis
      unfolding load_as_task [of v w]
      by (simp add: try_catch_Inl [where m = "js_bind (fetch v) ?render"] b
          showChartError_dom split: option.splits)
  next
    case (Inr u)
    then have "fst (?render payload ?w1) = Inr ()" by simp
    then show ?thesis
      unfolding load_as_task [of v w]
      using render_no_spinner [of v payload ?w1]
      by (simp add: try_catch_Inr [where m = "js_bind (fetch v) ?render"] b)
  qed
qed

lemma inj_region: "region u = region v \<Longrightarrow> u = v"
  by (cases u; cases v) simp_all

lemma load_other: "u \<noteq> v \<Longrightarrow> dom (snd (load u w)) (region v) = dom w (region v)"
  using confined_other [OF confined_load, of "region v" u w] inj_region by blast

lemma settle_env:
  "same_env w (snd (settle vs w))
   \<and> analyticsDashboard (snd (settle vs w)) = analyticsDashboard w"
proof (induction vs arbitrary: w)
  case Nil
  then show ?case by (simp add: same_env_refl)
next
  case (Cons u vs)
  show ?case
    using Cons.IH [of "snd (load u w)"] confined_env [OF confined_load, of w u]
      confined_dashboard [OF confined_load, of u w]
    by (auto simp add: split_beta intro: same_env_trans)
qed

lemma settle_other:
  "v \<notin> set vs \<Longrightarrow> dom (snd (settle vs w)) (region v) = dom w (region v)"
  by (induction vs arbitrary: w) (auto simp add: split_beta load_other)

lemma settle_own:
  "distinct vs \<Longrightarrow> v \<in> set vs \<Longrightarrow>
   dom (snd (settle vs w)) (region v) = dom (snd (load v w)) (region v)"
proof (induction vs arbitrary: w)
  case Nil
  then show ?case by simp
next
  case (Cons u vs)
  show ?case
  proof (cases "u = v")
    case True
    with Cons.prems show ?thesis by (simp add: split_beta settle_other)
  next
    case False
    with Cons.prems have v: "v \<in> set vs" and d: "distinct vs" by simp_all
    have "dom (snd (settle vs (snd (load u w)))) (region v)
        = dom (snd (load v (snd (load u w)))) (region v)"
      using Cons.IH [OF d v] .
    also have "\<dots> = dom (snd (load v w)) (region v)"
      using confined_own [OF confined_load, of w "snd (load u w)" v]
        confined_env [OF confined_load, of w u] load_other [OF False, of w]
      by simp
    finally show ?thesis by (simp add: split_beta)
  qed
qed

lemma settle_fulfilled: "fst (settle vs w) = map (\<lambda>v. Inr ()) vs"
  by (induction vs arbitrary: w) (simp_all add: split_beta load_fulfils)

lemma set_all_views: "set all_views = UNIV"
proof -
  have "v \<in> set all_views" for v by (cases v) (simp_all add: all_views_def)
  then show ?thesis by blast
qed

lemma completion_order_all:
  "distinct (completion_order order) \<and> set (completion_order order) = UNIV"
proof -
  have "distinct all_views" by (simp add: all_views_def)
  then show ?thesis using set_all_views by (auto simp add: completion_order_def)
qed

lemma length_completion_order: "length (completion_order order) = 6"
proof -
  have "card (UNIV :: view set) = 6"
    using set_all_views distinct_card [of all_views] by (simp add: all_views_def)
  then show ?thesis
    using completion_order_all [of order] distinct_card [of "completion_order order"] by simp
qed

lemma fold_spinner_dom:
  "dom (fold (\<lambda>containerId w.
             case dom w containerId of
               None \<Rightarrow> w
             | Some container \<Rightarrow> w\<lparr>dom := (dom w)(containerId \<mapsto> LoadingSpinner)\<rparr>) ids w) r =
     (if r \<in> set ids
      then (case dom w r of None \<Rightarrow> None | Some c \<Rightarrow> Some LoadingSpinner)
      else dom w r)"
proof (induction ids arbitrary: w)
  case Nil
  then show ?case by simp
next
  case (Cons i ids)
  show ?case
    by (cases "dom w i") (simp_all add: Cons.IH split: option.splits)
qed

lemma fold_spinner_env:
  "same_env w (fold (\<lambda>containerId w.
             case dom w containerId of
               None \<Rightarrow> w
             | Some container \<Rightarrow> w\<lparr>dom := (dom w)(containerId \<mapsto> LoadingSpinner)\<rparr>) ids w)
   \<and> analyticsDashboard (fold (\<lambda>containerId w.
             case dom w containerId of
               None \<Rightarrow> w
             | Some container \<Rightarrow> w\<lparr>dom := (dom w)(containerId \<mapsto> LoadingSpinner)\<rparr>) ids w)
       = analyticsDashboard w"
proof (induction ids arbitrary: w)
  case Nil
  then show ?case by (simp add: same_env_refl)
next
  case (Cons i ids)
  show ?case
  proof (cases "dom w i")
    case None
    then show ?thesis using Cons.IH [of w] by simp
  next
    case (Some c)
    then show ?thesis
      using Cons.IH [of "w\<lparr>dom := (dom w)(i \<mapsto> LoadingSpinner)\<rparr>"]
      by (simp add: same_env_def)
  qed
qed

lemma showLoadingState_dom:
  "dom (showLoadingState w) r =
     (if r \<in> set containers
      then (case dom w r of None \<Rightarrow> None | Some c \<Rightarrow> Some LoadingSpinner)
      else dom w r)"
  unfolding showLoadingState_def by (rule fold_spinner_dom)

lemma showLoadingState_env:
  "same_env w (showLoadingState w)
   \<and> analyticsDashboard (showLoadingState w) = analyticsDashboard w"
  unfolding showLoadingState_def by (rule fold_spinner_env)

lemma region_container: "region v \<in> set containers"
  by (cases v) (simp_all add: containers_def)

lemma loadAllAnalytics_runs:
  assumes "\<not> isLoading (analyticsDashboard w)"
  shows "loadAllAnalytics order w =
     (Inr (), set_isLoading False
        (snd (settle (completion_order order) (showLoadingState (set_isLoading True w)))))"
  using assms
  by (simp add: loadAllAnalytics_def try_catch_def js_bind_def allSettled_def
      hideLoadingState_def split: prod.splits)

lemma bind_apiFetch_fst:
  "fst (js_bind (apiFetch endpoint) (\<lambda>data w. (Inr data, g data w)) w)
     = fst (apiFetch_body endpoint w)"
  using apiFetch_fst [of endpoint w]
  by (cases "apiFetch endpoint w") (auto simp add: js_bind_def split: sum.splits)

lemma fetch_fst:
  assumes "same_env w w'"
  shows "fst (fetch v w') = fst (fetch v w)"
proof -
  have "currentPeriod (analyticsDashboard w') = currentPeriod (analyticsDashboard w)"
    and "currentMonths (analyticsDashboard w') = currentMonths (analyticsDashboard w)"
    using assms by (simp_all add: same_env_def)
  then show ?thesis
    by (cases v)
       (simp_all add: fetchSpendingTrends_def fetchCategoryBreakdown_def fetchInsights_def
          fetchPredictions_def fetchSpendingVelocity_def fetchForecast_def Let_def
          bind_apiFetch_fst apiFetch_body_fst [OF assms])
qed

lemma set_isLoading_env: "same_env w (set_isLoading b w) \<and> dom (set_isLoading b w) = dom w"
  by (simp add: set_isLoading_def same_env_def)

lemma refresh_start_env: "same_env w (showLoadingState (set_isLoading True w))"
  using set_isLoading_env [of w True] showLoadingState_env [of "set_isLoading True w"]
  by (blast intro: same_env_trans)

lemma refresh_dom:
  assumes "\<not> isLoading (analyticsDashboard w)"
  shows "dom (snd (loadAllAnalytics order w)) (region u) =
         dom (snd (load u (showLoadingState (set_isLoading True w)))) (region u)"
  using completion_order_all [of order]
  by (simp add: loadAllAnalytics_runs [OF assms] set_isLoading_def settle_own)

section \<open>The full refresh\<close>

lemma demo_insights_fails:
  "fst (fetch Insights demo) =
     Inl (Error [Lit ''API request failed: '', Val (JNum (Fin 500)), Lit '' '',
                 Val (JStr ''Internal Server Error'')])"
  by (simp add: fetchInsights_def js_bind_def apiFetch_def try_catch_def apiFetch_body_def
      demo_def demo_server_def ok_def TransportError_def ANALYTICS_API_URL_def Let_def)

lemma demo_velocity_loads:
  "dom (snd (load Velocity (showLoadingState (set_isLoading True demo)))) ''velocity-widget''
     = Some (VelocityWidget (JNum (Fin 15)) (JNum (Fin 500)) (JNum (double (333 / 10)))
         (JNum (Fin 1000)) (Fin 50) (JNum (Fin 15)))"
proof -
  let ?w = "demo\<lparr>dom := (dom demo)(''velocity-widget'' \<mapsto> LoadingSpinner)\<rparr>"
  let ?w1 = "showLoadingState (set_isLoading True demo)"
  have page: "dom demo ''velocity-widget'' = Some Empty"
    by (simp add: demo_def demo_page_def containers_def)
  have env: "same_env ?w ?w1"
    using refresh_start_env [of demo] by (simp add: same_env_def)
  have reg: "dom ?w1 (region Velocity) = dom ?w (region Velocity)"
    by (simp add: showLoadingState_dom set_isLoading_env containers_def page)
  have "dom (snd (load Velocity ?w1)) (region Velocity) = dom (snd (load Velocity ?w)) (region Velocity)"
    using confined_own [OF confined_load env reg] .
  moreover have "dom (snd (load Velocity ?w)) ''velocity-widget''
     = Some (VelocityWidget (JNum (Fin 15)) (JNum (Fin 500)) (JNum (double (333 / 10)))
         (JNum (Fin 1000)) (Fin 50) (JNum (Fin 15)))"
    by (simp add: loadVelocityData_def fetchSpendingVelocity_def js_bind_def apiFetch_def
        try_catch_def apiFetch_body_def demo_def demo_server_def ok_def ANALYTICS_API_URL_def
        Let_def demo_velocity_def renderVelocityWidget_def with_container_def sbind_def
        progressPercent_day_15 interpolate_number formatAnalyticsCurrency_number)
  ultimately show ?thesis by simp
qed

text \<open>
  C1. In a full refresh started from the idle state, whatever the order in which the six
  tasks finish: if the fetch of task \<open>v\<close> throws, then the refresh returns normally,
  each of the six tasks is fulfilled (none rethrows), the region of \<open>v\<close> (when the page
  has it) ends up holding the error message of \<open>v\<close>, task \<open>v\<close> writes to no other
  region, and the region of every other task \<open>u\<close> ends up holding what \<open>u\<close> run on its
  own from the loading state leaves there.
\<close>

theorem failed_fetch_is_isolated:
  assumes idle: "\<not> isLoading (analyticsDashboard w)" and fails: "fst (fetch v w) = Inl e"
  shows "fst (loadAllAnalytics order w) = Inr ()
     \<and> fst (allSettled order (showLoadingState (set_isLoading True w)))
         = Inr (replicate 6 (Inr ()))
     \<and> dom (snd (loadAllAnalytics order w)) (region v) =
         (case dom w (region v) of
            None \<Rightarrow> None
          | Some c \<Rightarrow> Some (ErrorState (failure_message v)))
     \<and> (\<forall>w' r. r \<noteq> region v \<longrightarrow> dom (snd (load v w')) r = dom w' r)
     \<and> (\<forall>u. u \<noteq> v \<longrightarrow>
           dom (snd (loadAllAnalytics order w)) (region u) =
           dom (snd (load u (showLoadingState (set_isLoading True w)))) (region u))"
proof -
  let ?w1 = "showLoadingState (set_isLoading True w)"
  have returns: "fst (loadAllAnalytics order w) = Inr ()"
    by (simp add: loadAllAnalytics_runs [OF idle])
  have fulfilled: "fst (allSettled order ?w1) = Inr (replicate 6 (Inr ()))"
    using settle_fulfilled [of "completion_order order" ?w1] length_completion_order [of order]
    by (simp add: allSettled_def split_beta map_replicate_const)
  have "fst (fetch v ?w1) = Inl e"
    using fetch_fst [OF refresh_start_env, of v w] fails by simp
  then have "dom (snd (load v ?w1)) (region v) =
      (case dom ?w1 (region v) of
         None \<Rightarrow> None
       | Some c \<Rightarrow> Some (ErrorState (failure_message v)))"
    by (rule load_fetch_fails)
  also have "\<dots> = (case dom w (region v) of
         None \<Rightarrow> None
       | Some c \<Rightarrow> Some (ErrorState (failure_message v)))"
    by (simp add: showLoadingState_dom region_container set_isLoading_env split: option.splits)
  finally have own: "dom (snd (loadAllAnalytics order w)) (region v) =
      (case dom w (region v) of
         None \<Rightarrow> None
       | Some c \<Rightarrow> Some (ErrorState (failure_message v)))"
    by (simp add: refresh_dom [OF idle])
  have only: "\<forall>w' r. r \<noteq> region v \<longrightarrow> dom (snd (load v w')) r = dom w' r"
    using confined_other [OF confined_load] by blast
  have others: "\<forall>u. u \<noteq> v \<longrightarrow>
           dom (snd (loadAllAnalytics order w)) (region u) =
           dom (snd (load u ?w1)) (region u)"
    by (simp add: refresh_dom [OF idle])
  from returns fulfilled own only others show ?thesis by blast
qed

text \<open>
  On the demo page the insights request fails with status 500: the insights region shows
  its error message and the velocity widget is drawn all the same.
\<close>

theorem failed_fetch_is_isolated_witness:
  "\<not> isLoading (analyticsDashboard demo)
   \<and> fst (fetch Insights demo) =
       Inl (Error [Lit ''API request failed: '', Val (JNum (Fin 500)), Lit '' '',
                   Val (JStr ''Internal Server Error'')])
   \<and> fst (loadAllAnalytics [Forecast, Velocity] demo) = Inr ()
   \<and> dom (snd (loadAllAnalytics [Forecast, Velocity] demo)) ''insights-widget''
       = Some (ErrorState ''Failed to load insights'')
   \<and> dom (snd (loadAllAnalytics [Forecast, Velocity] demo)) ''velocity-widget''
       = Some (VelocityWidget (JNum (Fin 15)) (JNum (Fin 500)) (JNum (double (333 / 10)))
           (JNum (Fin 1000)) (Fin 50) (JNum (Fin 15)))"
proof -
  have idle: "\<not> isLoading (analyticsDashboard demo)"
    by (simp add: demo_def AnalyticsDashboard_def)
  have page: "dom demo ''insights-widget'' = Some Empty"
    by (simp add: demo_def demo_page_def containers_def)
  note isolated = failed_fetch_is_isolated [OF idle demo_insights_fails, of "[Forecast, Velocity]"]
  from isolated have "Velocity \<noteq> Insights \<longrightarrow>
      dom (snd (loadAllAnalytics [Forecast, Velocity] demo)) (region Velocity)
      = dom (snd (load Velocity (showLoadingState (set_isLoading True demo)))) (region Velocity)"
    by blast
  then have sibling: "dom (snd (loadAllAnalytics [Forecast, Velocity] demo)) ''velocity-widget''
       = Some (VelocityWidget (JNum (Fin 15)) (JNum (Fin 500)) (JNum (double (333 / 10)))
           (JNum (Fin 1000)) (Fin 50) (JNum (Fin 15)))"
    using demo_velocity_loads by simp
  from isolated idle demo_insights_fails page sibling show ?thesis
    by simp
qed

text \<open>
  C2. A full refresh called while \<open>isLoading\<close> is set returns at once and leaves the
  whole state as it was: the flag stays set, no region is rewritten and no request is sent.
\<close>

theorem refresh_while_loading_is_noop:
  assumes "isLoading (analyticsDashboard w)"
  shows "loadAllAnalytics order w = (Inr (), w)"
  using assms by (simp add: loadAllAnalytics_def)

text \<open>
  A second refresh called right after a first one has set the flag and shown the
  spinners.
\<close>

theorem refresh_while_loading_is_noop_witness:
  "isLoading (analyticsDashboard (showLoadingState (set_isLoading True demo)))
   \<and> loadAllAnalytics [] (showLoadingState (set_isLoading True demo))
       = (Inr (), showLoadingState (set_isLoading True demo))"
proof -
  have "isLoading (analyticsDashboard (showLoadingState (set_isLoading True demo)))"
    by (simp add: showLoadingState_env set_isLoading_def)
  then show ?thesis
    using refresh_while_loading_is_noop [of "showLoadingState (set_isLoading True demo)" "[]"]
    by simp
qed

text \<open>
  C3. A full refresh started from the idle state ends, whatever its tasks did and in
  whatever order they finished, with the dashboard instance as it was before, so with
  \<open>isLoading\<close> false and the next refresh accepted, and with no region of the six left
  showing the loading spinner.
\<close>

theorem refresh_returns_to_idle:
  assumes "\<not> isLoading (analyticsDashboard w)"
  shows "analyticsDashboard (snd (loadAllAnalytics order w)) = analyticsDashboard w
     \<and> \<not> isLoading (analyticsDashboard (snd (loadAllAnalytics order w)))
     \<and> (\<forall>v. dom (snd (loadAllAnalytics order w)) (region v) \<noteq> Some LoadingSpinner)"
proof -
  let ?w1 = "showLoadingState (set_isLoading True w)"
  have "analyticsDashboard (snd (settle (completion_order order) ?w1))
      = (analyticsDashboard w)\<lparr>isLoading := True\<rparr>"
    using settle_env [of ?w1 "completion_order order"] showLoadingState_env [of "set_isLoading True w"]
    by (simp add: set_isLoading_def)
  then have d: "analyticsDashboard (snd (loadAllAnalytics order w)) = analyticsDashboard w"
    using assms by (simp add: loadAllAnalytics_runs [OF assms] set_isLoading_def)
  have "\<forall>v. dom (snd (loadAllAnalytics order w)) (region v) \<noteq> Some LoadingSpinner"
    by (simp add: refresh_dom [OF assms] load_no_spinner)
  with d assms show ?thesis by simp
qed

text \<open>A full refresh of the demo page.\<close>

theorem refresh_returns_to_idle_witness:
  "\<not> isLoading (analyticsDashboard demo)
   \<and> \<not> isLoading (analyticsDashboard (snd (loadAllAnalytics [] demo)))
   \<and> dom (snd (loadAllAnalytics [] demo)) ''trends-chart'' \<noteq> Some LoadingSpinner"
proof -
  have idle: "\<not> isLoading (analyticsDashboard demo)"
    by (simp add: demo_def AnalyticsDashboard_def)
  show ?thesis
    using refresh_returns_to_idle [OF idle, of "[]"] idle
    by (metis region.simps(1))
qed

end
